theory Spec2Isabelle
  imports Complex_Main "HOL-Library.Word" "HOL-Library.Sublist"
begin

section \<open>The data access layer of ftp-user-svc (package data, file data/data.go)\<close>

text \<open>
  The embedding follows data/data.go function by function. Go strings are byte sequences
  and are modelled as \<open>string\<close> (a list of \<open>char\<close>, one per byte). A Go \<open>error\<close> value is
  identified with the text its \<open>Error()\<close> method returns; \<open>nil\<close> is \<open>None\<close>. The package
  variables, the receiver \<open>*Database\<close> and the world outside the process (the SQL server
  reached through database/sql, and the clock) are passed in and returned explicitly.
\<close>

subsection \<open>Functions of the Go standard library, as far as the package uses them\<close>

type_synonym err = string

definition backtick :: char where
  "backtick = CHR 0x60"

definition dquote :: char where
  "dquote = CHR 0x22"

definition squote :: char where
  "squote = CHR 0x27"

text \<open>
  \<open>strings.Replace(s, old, new, n)\<close>: the first \<open>n\<close> non-overlapping occurrences of
  \<open>old\<close>, from the left, are replaced by \<open>new\<close>; a negative \<open>n\<close> sets no limit. The package
  only calls it with a one-byte \<open>old\<close>; the rune-wise insertion Go performs for an empty
  \<open>old\<close> is outside this model (the model leaves \<open>s\<close> unchanged there).
\<close>

function strings_Replace :: "string \<Rightarrow> string \<Rightarrow> string \<Rightarrow> int \<Rightarrow> string" where
  "strings_Replace s old new n =
     (if n = 0 \<or> s = [] \<or> old = [] then s
      else if prefix old s then new @ strings_Replace (drop (length old) s) old new (n - 1)
      else hd s # strings_Replace (tl s) old new n)"
  by pat_completeness auto
termination
  by (relation "measure (\<lambda>(s, old, new, n). length s)") auto

declare strings_Replace.simps [simp del]

text \<open>\<open>strings.ReplaceAll(s, old, new)\<close> is \<open>strings.Replace(s, old, new, -1)\<close>.\<close>

definition strings_ReplaceAll :: "string \<Rightarrow> string \<Rightarrow> string \<Rightarrow> string" where
  "strings_ReplaceAll s old new = strings_Replace s old new (- 1)"

text \<open>\<open>strings.Contains(s, substr)\<close>: \<open>substr\<close> occurs in \<open>s\<close>; the empty string always does.\<close>

fun strings_Contains :: "string \<Rightarrow> string \<Rightarrow> bool" where
  "strings_Contains [] substr = (substr = [])"
| "strings_Contains (c # cs) substr = (prefix substr (c # cs) \<or> strings_Contains cs substr)"

text \<open>
  \<open>strings.Split(s, sep)\<close> for a non-empty \<open>sep\<close>: \<open>s\<close> is cut at every non-overlapping
  occurrence of \<open>sep\<close>, found from the left; \<open>cur\<close> collects the bytes of the segment being
  read. A string without \<open>sep\<close> gives the one-element list \<open>[s]\<close>.
\<close>

function split_from :: "string \<Rightarrow> string \<Rightarrow> string \<Rightarrow> string list" where
  "split_from cur s sep =
     (if s = [] then [cur]
      else if sep \<noteq> [] \<and> prefix sep s then cur # split_from [] (drop (length sep) s) sep
      else split_from (cur @ [hd s]) (tl s) sep)"
  by pat_completeness auto
termination
  by (relation "measure (\<lambda>(cur, s, sep). length s)") auto

declare split_from.simps [simp del]

definition strings_Split :: "string \<Rightarrow> string \<Rightarrow> string list" where
  "strings_Split s sep = split_from [] s sep"

text \<open>The verb \<open>%d\<close> of package fmt on a non-negative integer: its decimal digits.\<close>

definition digit :: "nat \<Rightarrow> char" where
  "digit d = ''0123456789'' ! d"

function itoa :: "nat \<Rightarrow> string" where
  "itoa n = (if n < 10 then [digit n] else itoa (n div 10) @ [digit (n mod 10)])"
  by pat_completeness auto
termination
  by (relation "measure id") auto

declare itoa.simps [simp del]

subsection \<open>Constants, package variables and types of package data\<close>

definition ErrUserNotFound :: err where
  "ErrUserNotFound = ''No matching user found''"


text \<open>The mapping create statuses, numbered by \<open>iota\<close> in the order of the const block.\<close>

definition MappingError :: int where
  "MappingError = 0"

definition MappingFTPAccountNotFound :: int where
  "MappingFTPAccountNotFound = 1"

definition MappingInserted :: int where
  "MappingInserted = 2"

definition MappingUpdated :: int where
  "MappingUpdated = 3"

definition MySQLDriverName :: string where
  "MySQLDriverName = ''mysql''"

definition PostgreSQLDriverName :: string where
  "PostgreSQLDriverName = ''postgres''"

definition connectionRetryAttempts :: nat where
  "connectionRetryAttempts = 10"

definition retrySleepSeconds :: nat where
  "retrySleepSeconds = 5"

text \<open>
  The package variables: the Azure parameters and the parameters of \<open>sql.Open\<close>. Only
  \<open>NewDB\<close> assigns \<open>dbDriverName\<close> and \<open>connStr\<close>; both start as the empty string.
\<close>

record globals =
  AZKey :: string
  AZAccount :: string
  AZContainer :: string
  dbDriverName :: string
  connStr :: string

definition initial_globals :: globals where
  "initial_globals =
     \<lparr>AZKey = [], AZAccount = [], AZContainer = [], dbDriverName = [], connStr = []\<rparr>"

record FtpUser =
  ID :: "32 word"
  Username :: string
  Description :: string
  Password :: string

definition zero_FtpUser :: FtpUser where
  "zero_FtpUser = \<lparr>ID = 0, Username = [], Description = [], Password = []\<rparr>"

record NewMapping =
  System :: string
  SystemID :: string
  FTPAccountID :: "32 word"

record FtpUsers =
  Ftpusers :: "FtpUser list"
  TotalItems :: "32 word"
  TotalPages :: "32 word"

definition zero_FtpUsers :: FtpUsers where
  "zero_FtpUsers = \<lparr>Ftpusers = [], TotalItems = 0, TotalPages = 0\<rparr>"

text \<open>
  The parts of \<open>sftpgo.User\<close>, \<open>vfs.VirtualFolder\<close>, \<open>vfs.Filesystem\<close> and \<open>kms.Secret\<close>
  that \<open>FtpUserLookup\<close> reads or writes. Field names carry a prefix where Go reuses a name.
\<close>

datatype FilesystemProvider = LocalFilesystemProvider | AzureBlobFilesystemProvider

datatype SecretStatus = SecretStatusPlain

record Secret =
  secret_status :: SecretStatus
  secret_payload :: string
  secret_key :: string
  secret_additionalData :: string

definition NewSecret :: "SecretStatus \<Rightarrow> string \<Rightarrow> string \<Rightarrow> string \<Rightarrow> Secret" where
  "NewSecret status payload key additionalData =
     \<lparr>secret_status = status, secret_payload = payload, secret_key = key,
      secret_additionalData = additionalData\<rparr>"

record AzBlobFsConfig =
  az_AccountName :: string
  az_Container :: string
  az_KeyPrefix :: string
  az_AccountKey :: "Secret option"

record Filesystem =
  fs_Provider :: FilesystemProvider
  fs_AzBlobConfig :: AzBlobFsConfig

definition zero_Filesystem :: Filesystem where
  "zero_Filesystem =
     \<lparr>fs_Provider = LocalFilesystemProvider,
      fs_AzBlobConfig = \<lparr>az_AccountName = [], az_Container = [], az_KeyPrefix = [],
                         az_AccountKey = None\<rparr>\<rparr>"

record VirtualFolder =
  vf_Name :: string
  vf_VirtualPath :: string
  vf_FsConfig :: Filesystem

definition zero_VirtualFolder :: VirtualFolder where
  "zero_VirtualFolder = \<lparr>vf_Name = [], vf_VirtualPath = [], vf_FsConfig = zero_Filesystem\<rparr>"

record User =
  user_ID :: "64 word"
  user_Username :: string
  user_Description :: string
  user_Password :: string
  user_VirtualFolders :: "VirtualFolder list"
  user_FsConfig :: Filesystem

definition zero_User :: User where
  "zero_User =
     \<lparr>user_ID = 0, user_Username = [], user_Description = [], user_Password = [],
      user_VirtualFolders = [], user_FsConfig = zero_Filesystem\<rparr>"

subsection \<open>The world behind database/sql\<close>

text \<open>
  Everything package database/sql and the clock do is a parameter: an environment of
  operations on a world \<open>'w\<close>, with connection handles \<open>'h\<close> (a non-nil \<open>*sql.DB\<close>) and
  column values \<open>'v\<close>. A result set is the list of rows that successive calls of \<open>Next\<close>
  deliver and the error that \<open>Err\<close> reports once \<open>Next\<close> has returned false. The
  \<open>scan_\<close> operations are the conversions \<open>Scan\<close> applies for a destination of type
  \<open>*string\<close>, \<open>*uint32\<close>, \<open>*int64\<close> and \<open>*int\<close>.
\<close>

datatype sqlarg = ArgString string | ArgUint32 "32 word"

datatype pool_setting = MaxIdleConns nat | MaxOpenConns nat | ConnMaxLifetimeSeconds nat

record 'v sqlrows =
  rows_data :: "'v list list"
  rows_err :: "err option"

record ('w, 'h, 'v) sqlenv =
  sql_Open :: "string \<Rightarrow> string \<Rightarrow> 'w \<Rightarrow> (err + 'h) \<times> 'w"
  db_Ping :: "'h \<Rightarrow> 'w \<Rightarrow> err option \<times> 'w"
  db_Exec :: "'h \<Rightarrow> string \<Rightarrow> sqlarg list \<Rightarrow> 'w \<Rightarrow> (err + int) \<times> 'w"
  db_Query :: "'h \<Rightarrow> string \<Rightarrow> sqlarg list \<Rightarrow> 'w \<Rightarrow> (err + 'v sqlrows) \<times> 'w"
  db_Configure :: "'h \<Rightarrow> pool_setting \<Rightarrow> 'w \<Rightarrow> 'w"
  time_Sleep :: "nat \<Rightarrow> 'w \<Rightarrow> 'w"
  scan_string :: "'v \<Rightarrow> err + string"
  scan_uint32 :: "'v \<Rightarrow> err + 32 word"
  scan_int64 :: "'v \<Rightarrow> err + 64 word"
  scan_int :: "'v \<Rightarrow> err + int"

text \<open>The struct \<open>Database\<close> embeds a \<open>*sql.DB\<close>, which is \<open>nil\<close> until a connection is opened.\<close>

record 'h Database =
  DB :: "'h option"

text \<open>
  A call either returns or panics. Go panics with a nil pointer dereference when a method
  of \<open>*sql.DB\<close> is called on the nil pointer.
\<close>

datatype 'a go = Returns 'a | Panics

definition ErrNoRows :: err where
  "ErrNoRows = ''sql: no rows in result set''"

text \<open>
  \<open>Rows.Scan(dest...)\<close>: the number of destinations must be the number of columns; then
  the columns are converted and assigned from left to right, and the first conversion that
  fails ends the scan with its error, the destinations before it already assigned. A
  destination is a function that converts one column and stores it in the variables \<open>'s\<close>.
\<close>

fun scan_columns :: "('v \<Rightarrow> 's \<Rightarrow> err + 's) list \<Rightarrow> 'v list \<Rightarrow> 's \<Rightarrow> 's \<times> err option" where
  "scan_columns (d # ds) (c # cs) s =
     (case d c s of Inl e \<Rightarrow> (s, Some e) | Inr s' \<Rightarrow> scan_columns ds cs s')"
| "scan_columns ds cs s = (s, None)"

definition rows_Scan :: "('v \<Rightarrow> 's \<Rightarrow> err + 's) list \<Rightarrow> 'v list \<Rightarrow> 's \<Rightarrow> 's \<times> err option" where
  "rows_Scan dests row s =
     (if length dests \<noteq> length row
      then (s, Some (''sql: expected '' @ itoa (length row)
                      @ '' destination arguments in Scan, not '' @ itoa (length dests)))
      else scan_columns dests row s)"

definition dest_string ::
  "('w, 'h, 'v) sqlenv \<Rightarrow> (string \<Rightarrow> 's \<Rightarrow> 's) \<Rightarrow> 'v \<Rightarrow> 's \<Rightarrow> err + 's" where
  "dest_string env assign c s =
     (case scan_string env c of Inl e \<Rightarrow> Inl e | Inr v \<Rightarrow> Inr (assign v s))"

definition dest_uint32 ::
  "('w, 'h, 'v) sqlenv \<Rightarrow> (32 word \<Rightarrow> 's \<Rightarrow> 's) \<Rightarrow> 'v \<Rightarrow> 's \<Rightarrow> err + 's" where
  "dest_uint32 env assign c s =
     (case scan_uint32 env c of Inl e \<Rightarrow> Inl e | Inr v \<Rightarrow> Inr (assign v s))"

definition dest_int64 ::
  "('w, 'h, 'v) sqlenv \<Rightarrow> (64 word \<Rightarrow> 's \<Rightarrow> 's) \<Rightarrow> 'v \<Rightarrow> 's \<Rightarrow> err + 's" where
  "dest_int64 env assign c s =
     (case scan_int64 env c of Inl e \<Rightarrow> Inl e | Inr v \<Rightarrow> Inr (assign v s))"


text \<open>
  \<open>Row.Scan(dest...)\<close> on the \<open>*sql.Row\<close> of \<open>QueryRow\<close>: the error of the query if it failed;
  without a first row the iteration error or else \<open>sql.ErrNoRows\<close>; otherwise the scan of
  the first row. Closing the result set is taken to succeed.
\<close>

definition row_Scan ::
  "('v \<Rightarrow> 's \<Rightarrow> err + 's) list \<Rightarrow> err + 'v sqlrows \<Rightarrow> 's \<Rightarrow> 's \<times> err option" where
  "row_Scan dests row s =
     (case row of
        Inl e \<Rightarrow> (s, Some e)
      | Inr rows \<Rightarrow>
          (case rows_data rows of
             [] \<Rightarrow> (case rows_err rows of Some e \<Rightarrow> (s, Some e) | None \<Rightarrow> (s, Some ErrNoRows))
           | r # rs \<Rightarrow> rows_Scan dests r s))"

subsection \<open>The dialect adapter\<close>

text \<open>
  The loop \<open>for p := 1; p < 11; p++\<close> of \<open>fmtQueryForDriver\<close>: each round replaces the
  first \<open>?\<close> that is left by the text \<open>fmt.Sprintf("$%d", p)\<close>.
\<close>

function fmtQuery_loop :: "nat \<Rightarrow> string \<Rightarrow> string" where
  "fmtQuery_loop p result =
     (if p < 11
      then fmtQuery_loop (p + 1) (strings_Replace result ''?'' (''$'' @ itoa p) 1)
      else result)"
  by pat_completeness auto
termination
  by (relation "measure (\<lambda>(p, result). 11 - p)") auto

declare fmtQuery_loop.simps [simp del]

definition fmtQueryForDriver :: "globals \<Rightarrow> string \<Rightarrow> string" where
  "fmtQueryForDriver g query =
     (if dbDriverName g = PostgreSQLDriverName
      then fmtQuery_loop 1 (strings_ReplaceAll query [backtick] [dquote])
      else query)"

definition getPrimaryKeyErr :: "globals \<Rightarrow> string" where
  "getPrimaryKeyErr g =
     (let result = [];
          result = (if dbDriverName g = MySQLDriverName then ''Error Code: 1062'' else result);
          result = (if dbDriverName g = PostgreSQLDriverName
                    then ''duplicate key value violates unique constraint'' else result)
      in result)"

definition checkPrimaryKeyErr :: "globals \<Rightarrow> err \<Rightarrow> bool" where
  "checkPrimaryKeyErr g e = strings_Contains e (getPrimaryKeyErr g)"

definition getForeignKeyErr :: "globals \<Rightarrow> string" where
  "getForeignKeyErr g =
     (let result = [];
          result = (if dbDriverName g = MySQLDriverName then ''Error Code: 1452'' else result);
          result = (if dbDriverName g = PostgreSQLDriverName
                    then ''violates foreign key constraint'' else result)
      in result)"

definition checkForeignKeyErr :: "globals \<Rightarrow> err \<Rightarrow> bool" where
  "checkForeignKeyErr g e = strings_Contains e (getForeignKeyErr g)"

definition getLimitClauseForDriver :: "globals \<Rightarrow> 32 word \<Rightarrow> 32 word \<Rightarrow> string" where
  "getLimitClauseForDriver g pageSize offset =
     (let result = [];
          result = (if dbDriverName g = MySQLDriverName
                    then '' limit '' @ itoa (unat offset) @ '', '' @ itoa (unat pageSize)
                    else result);
          result = (if dbDriverName g = PostgreSQLDriverName
                    then '' limit '' @ itoa (unat pageSize) @ '' offset '' @ itoa (unat offset)
                    else result)
      in result)"

text \<open>
  The specification's description of the rewrite for Dialect B, written from its words and
  not from the code: every backtick becomes a double quote and the occurrences of \<open>?\<close>
  become, from left to right, the numbered placeholders starting at \<open>$p\<close>.
\<close>

fun numbered_placeholders :: "nat \<Rightarrow> string \<Rightarrow> string" where
  "numbered_placeholders p [] = []"
| "numbered_placeholders p (c # cs) =
     (if c = CHR ''?'' then ''$'' @ itoa p @ numbered_placeholders (p + 1) cs
      else if c = backtick then dquote # numbered_placeholders p cs
      else c # numbered_placeholders p cs)"

text \<open>
  An auxiliary function for the proofs: what the loop of \<open>fmtQueryForDriver\<close> computes,
  as one pass over the query. A \<open>?\<close> becomes the next placeholder as long as the counter
  is below 11, and stays otherwise.
\<close>

fun placeholders_from :: "nat \<Rightarrow> string \<Rightarrow> string" where
  "placeholders_from p [] = []"
| "placeholders_from p (c # cs) =
     (if c = CHR ''?'' \<and> p < 11 then ''$'' @ itoa p @ placeholders_from (p + 1) cs
      else c # placeholders_from p cs)"

subsection \<open>The connection manager\<close>

text \<open>
  The loop of \<open>attemptConnection\<close>, with its variables \<open>attempt\<close> and \<open>err\<close>. A failed
  \<open>sql.Open\<close> returns a nil \<open>*sql.DB\<close>, which the assignment stores in \<open>db.DB\<close>; the branch
  then sleeps, sets \<open>err\<close> to nil and continues. The result is the value of \<open>err\<close> when the
  loop is left.
\<close>

function attemptConnection_loop ::
  "('w, 'h, 'v) sqlenv \<Rightarrow> globals \<Rightarrow> nat \<Rightarrow> err option \<Rightarrow> 'h Database \<Rightarrow> 'w
     \<Rightarrow> err option \<times> 'h Database \<times> 'w" where
  "attemptConnection_loop env g attempt err db w =
     (if attempt < connectionRetryAttempts
      then (case sql_Open env (dbDriverName g) (connStr g) w of
              (Inl e, w1) \<Rightarrow>
                attemptConnection_loop env g (attempt + 1) None (db\<lparr>DB := None\<rparr>)
                  (time_Sleep env retrySleepSeconds w1)
            | (Inr h, w1) \<Rightarrow> (None, db\<lparr>DB := Some h\<rparr>, w1))
      else (err, db, w))"
  by pat_completeness auto
termination
  by (relation "measure (\<lambda>(env, g, attempt, err, db, w). connectionRetryAttempts - attempt)")
    auto

declare attemptConnection_loop.simps [simp del]

definition attemptConnection ::
  "('w, 'h, 'v) sqlenv \<Rightarrow> globals \<Rightarrow> 'h Database \<Rightarrow> 'w
     \<Rightarrow> err option go \<times> 'h Database \<times> 'w" where
  "attemptConnection env g db w =
     (case attemptConnection_loop env g 0 None db w of
        (Some e, db1, w1) \<Rightarrow> (Returns (Some e), db1, w1)
      | (None, db1, w1) \<Rightarrow>
          if dbDriverName g = PostgreSQLDriverName
          then (case DB db1 of
                  None \<Rightarrow> (Panics, db1, w1)
                | Some h \<Rightarrow>
                    (Returns None, db1,
                     db_Configure env h (ConnMaxLifetimeSeconds 3600)
                       (db_Configure env h (MaxOpenConns 100)
                          (db_Configure env h (MaxIdleConns 30) w1))))
          else (Returns None, db1, w1))"

definition checkDBConnection ::
  "('w, 'h, 'v) sqlenv \<Rightarrow> globals \<Rightarrow> 'h Database \<Rightarrow> 'w
     \<Rightarrow> err option go \<times> 'h Database \<times> 'w" where
  "checkDBConnection env g db w =
     (case DB db of
        None \<Rightarrow> (Panics, db, w)
      | Some h \<Rightarrow>
          (case db_Ping env h w of
             (Some e, w1) \<Rightarrow> attemptConnection env g db w1
           | (None, w1) \<Rightarrow> (Returns None, db, w1)))"

text \<open>
  \<open>NewDB\<close> returns either an error or the new \<open>Database\<close>, together with the package
  variables as it leaves them. The call of \<open>log.Info\<close> is left out.
\<close>

definition NewDB ::
  "('w, 'h, 'v) sqlenv \<Rightarrow> globals \<Rightarrow> 'w \<Rightarrow> string
     \<Rightarrow> (err + 'h Database) go \<times> globals \<times> 'w" where
  "NewDB env g w dataSourceName =
     (let segs = strings_Split dataSourceName ''://'' in
      if length segs < 2
      then (Returns (Inl (''protocol not specified in '' @ dataSourceName)), g, w)
      else
        let g1 = (if segs ! 0 = MySQLDriverName
                  then g\<lparr>dbDriverName := MySQLDriverName, connStr := segs ! 1\<rparr> else g);
            g2 = (if segs ! 0 = PostgreSQLDriverName
                  then g1\<lparr>dbDriverName := PostgreSQLDriverName, connStr := dataSourceName\<rparr>
                  else g1)
        in if dbDriverName g2 = []
           then (Returns (Inl (''protocol '' @ segs ! 0 @ '' not supported in ''
                                @ dataSourceName)), g2, w)
           else (case attemptConnection env g2 \<lparr>DB = None\<rparr> w of
                   (Panics, db, w1) \<Rightarrow> (Panics, g2, w1)
                 | (Returns (Some e), db, w1) \<Rightarrow> (Returns (Inl e), g2, w1)
                 | (Returns None, db, w1) \<Rightarrow> (Returns (Inr db), g2, w1)))"

definition QueryForDriver ::
  "('w, 'h, 'v) sqlenv \<Rightarrow> globals \<Rightarrow> 'h Database \<Rightarrow> 'w \<Rightarrow> string \<Rightarrow> sqlarg list
     \<Rightarrow> (err + 'v sqlrows) go \<times> 'w" where
  "QueryForDriver env g db w query args =
     (case DB db of
        None \<Rightarrow> (Panics, w)
      | Some h \<Rightarrow>
          (case db_Query env h (fmtQueryForDriver g query) args w of
             (r, w1) \<Rightarrow> (Returns r, w1)))"

definition ExecForDriver ::
  "('w, 'h, 'v) sqlenv \<Rightarrow> globals \<Rightarrow> 'h Database \<Rightarrow> 'w \<Rightarrow> string \<Rightarrow> sqlarg list
     \<Rightarrow> (err + int) go \<times> 'w" where
  "ExecForDriver env g db w query args =
     (case DB db of
        None \<Rightarrow> (Panics, w)
      | Some h \<Rightarrow>
          (case db_Exec env h (fmtQueryForDriver g query) args w of
             (r, w1) \<Rightarrow> (Returns r, w1)))"

text \<open>The \<open>*sql.Row\<close> of \<open>QueryRow\<close> holds the outcome of the query until \<open>Scan\<close> reads it.\<close>

definition QueryRowForDriver ::
  "('w, 'h, 'v) sqlenv \<Rightarrow> globals \<Rightarrow> 'h Database \<Rightarrow> 'w \<Rightarrow> string \<Rightarrow> sqlarg list
     \<Rightarrow> (err + 'v sqlrows) go \<times> 'w" where
  "QueryRowForDriver env g db w query args =
     (case DB db of
        None \<Rightarrow> (Panics, w)
      | Some h \<Rightarrow>
          (case db_Query env h (fmtQueryForDriver g query) args w of
             (r, w1) \<Rightarrow> (Returns r, w1)))"

subsection \<open>The account repository: lookup by username\<close>

definition FtpUserLookup_query :: string where
  "FtpUserLookup_query =
     ''select a.`id`, a.`username`, a.`description`, a.`password`, m.`id` `folder` ''
     @ ''from `ftp_account` a ''
     @ ''inner join `ftp_mapping` m ''
     @ ''on a.`id` = m.`ftp_id` ''
     @ ''where a.`username` = ? ''
     @ ''and m.`system` = '' @ [squote] @ ''BillSys1'' @ [squote]"

text \<open>
  The destinations of the \<open>Scan\<close> in \<open>FtpUserLookup\<close>: \<open>&user.ID\<close>, \<open>&user.Username\<close>,
  \<open>&user.Description\<close>, \<open>&user.Password\<close> and \<open>&vf.Name\<close>.
\<close>

definition FtpUserLookup_dests ::
  "('w, 'h, 'v) sqlenv \<Rightarrow> ('v \<Rightarrow> User \<times> VirtualFolder \<Rightarrow> err + User \<times> VirtualFolder) list" where
  "FtpUserLookup_dests env =
     [dest_int64 env (\<lambda>v (user, vf). (user\<lparr>user_ID := v\<rparr>, vf)),
      dest_string env (\<lambda>v (user, vf). (user\<lparr>user_Username := v\<rparr>, vf)),
      dest_string env (\<lambda>v (user, vf). (user\<lparr>user_Description := v\<rparr>, vf)),
      dest_string env (\<lambda>v (user, vf). (user\<lparr>user_Password := v\<rparr>, vf)),
      dest_string env (\<lambda>v (user, vf). (user, vf\<lparr>vf_Name := v\<rparr>))]"

definition azure_Filesystem :: "globals \<Rightarrow> string \<Rightarrow> Filesystem" where
  "azure_Filesystem g name =
     \<lparr>fs_Provider = AzureBlobFilesystemProvider,
      fs_AzBlobConfig =
        \<lparr>az_AccountName = AZAccount g, az_Container = AZContainer g,
         az_KeyPrefix = name @ ''/'',
         az_AccountKey = Some (NewSecret SecretStatusPlain (AZKey g) [] (''folder_'' @ name))\<rparr>\<rparr>"

text \<open>
  The loop \<open>for results.Next()\<close> of \<open>FtpUserLookup\<close> over the rows still to come, with its
  variables \<open>userFound\<close> and \<open>user\<close>. A failed \<open>Scan\<close> leaves the function at once, which
  the third component reports.
\<close>

fun FtpUserLookup_rows ::
  "('w, 'h, 'v) sqlenv \<Rightarrow> globals \<Rightarrow> 'v list list \<Rightarrow> bool \<Rightarrow> User
     \<Rightarrow> bool \<times> User \<times> err option" where
  "FtpUserLookup_rows env g [] userFound user = (userFound, user, None)"
| "FtpUserLookup_rows env g (r # rs) userFound user =
     (case rows_Scan (FtpUserLookup_dests env) r (user, zero_VirtualFolder) of
        ((user1, vf), Some e) \<Rightarrow> (True, user1, Some e)
      | ((user1, vf), None) \<Rightarrow>
          let vf1 = vf\<lparr>vf_VirtualPath := ''/'' @ vf_Name vf\<rparr>;
              vf2 = vf1\<lparr>vf_FsConfig := azure_Filesystem g (vf_Name vf1)\<rparr>
          in FtpUserLookup_rows env g rs True
               (user1\<lparr>user_VirtualFolders := user_VirtualFolders user1 @ [vf2]\<rparr>))"

definition FtpUserLookup ::
  "('w, 'h, 'v) sqlenv \<Rightarrow> globals \<Rightarrow> 'h Database \<Rightarrow> 'w \<Rightarrow> string
     \<Rightarrow> (User \<times> err option) go \<times> 'h Database \<times> 'w" where
  "FtpUserLookup env g db w username =
     (case checkDBConnection env g db w of
        (Panics, db1, w1) \<Rightarrow> (Panics, db1, w1)
      | (Returns (Some dbErr), db1, w1) \<Rightarrow> (Returns (zero_User, Some dbErr), db1, w1)
      | (Returns None, db1, w1) \<Rightarrow>
          (case QueryForDriver env g db1 w1 FtpUserLookup_query [ArgString username] of
             (Panics, w2) \<Rightarrow> (Panics, db1, w2)
           | (Returns (Inl e), w2) \<Rightarrow> (Returns (zero_User, Some e), db1, w2)
           | (Returns (Inr results), w2) \<Rightarrow>
               (case FtpUserLookup_rows env g (rows_data results) False zero_User of
                  (userFound, user, Some e) \<Rightarrow> (Returns (user, Some e), db1, w2)
                | (userFound, user, None) \<Rightarrow>
                    let user1 =
                          (if length (user_VirtualFolders user) = 1
                           then user\<lparr>user_FsConfig :=
                                        azure_Filesystem g (vf_Name (user_VirtualFolders user ! 0)),
                                      user_VirtualFolders := []\<rparr>
                           else user)
                    in (case rows_err results of
                          Some e \<Rightarrow> (Returns (user1, Some e), db1, w2)
                        | None \<Rightarrow>
                            if \<not> userFound
                            then (Returns (user1, Some ErrUserNotFound), db1, w2)
                            else (Returns (user1, None), db1, w2)))))"

text \<open>
  A row that the \<open>Scan\<close> of \<open>FtpUserLookup\<close> accepts: five columns, each of which the
  conversion for its destination takes.
\<close>

definition FtpUserLookup_scannable :: "('w, 'h, 'v) sqlenv \<Rightarrow> 'v list \<Rightarrow> bool" where
  "FtpUserLookup_scannable env r =
     (length r = 5 \<and> \<not> isl (scan_int64 env (r ! 0)) \<and> \<not> isl (scan_string env (r ! 1))
      \<and> \<not> isl (scan_string env (r ! 2)) \<and> \<not> isl (scan_string env (r ! 3))
      \<and> \<not> isl (scan_string env (r ! 4)))"

subsection \<open>The mapping repository: upsert\<close>

definition MappingCreate_insert :: string where
  "MappingCreate_insert = ''insert into `ftp_mapping` (`system`, `id`, `ftp_id`) values (?, ?, ?)''"

definition MappingCreate_update :: string where
  "MappingCreate_update = ''update `ftp_mapping` set `ftp_id` = ? where `system` = ? and `id` = ?''"

definition MappingCreate ::
  "('w, 'h, 'v) sqlenv \<Rightarrow> globals \<Rightarrow> 'h Database \<Rightarrow> 'w \<Rightarrow> NewMapping
     \<Rightarrow> (int \<times> err option) go \<times> 'h Database \<times> 'w" where
  "MappingCreate env g db w mapping =
     (case checkDBConnection env g db w of
        (Panics, db1, w1) \<Rightarrow> (Panics, db1, w1)
      | (Returns (Some dbErr), db1, w1) \<Rightarrow> (Returns (0, Some dbErr), db1, w1)
      | (Returns None, db1, w1) \<Rightarrow>
          (case ExecForDriver env g db1 w1 MappingCreate_insert
                  [ArgString (System mapping), ArgString (SystemID mapping),
                   ArgUint32 (FTPAccountID mapping)] of
             (Panics, w2) \<Rightarrow> (Panics, db1, w2)
           | (Returns (Inr res), w2) \<Rightarrow> (Returns (MappingInserted, None), db1, w2)
           | (Returns (Inl e), w2) \<Rightarrow>
               if checkPrimaryKeyErr g e
               then (case ExecForDriver env g db1 w2 MappingCreate_update
                            [ArgUint32 (FTPAccountID mapping), ArgString (System mapping),
                             ArgString (SystemID mapping)] of
                       (Panics, w3) \<Rightarrow> (Panics, db1, w3)
                     | (Returns (Inr res), w3) \<Rightarrow> (Returns (MappingUpdated, None), db1, w3)
                     | (Returns (Inl e2), w3) \<Rightarrow>
                         if checkForeignKeyErr g e2
                         then (Returns (MappingFTPAccountNotFound, None), db1, w3)
                         else (Returns (MappingError, Some e2), db1, w3))
               else (Returns (MappingError, Some e), db1, w2)))"

text \<open>\<open>MappingRetrieve\<close>; Go's parameter \<open>id\<close> is written \<open>ident\<close>.\<close>

definition ErrMappingNotFound :: err where
  "ErrMappingNotFound = ''No matching mapping found''"

record Mapping =
  mapping_System :: string
  mapping_ID :: string
  mapping_FTPAccount :: FtpUser

definition zero_Mapping :: Mapping where
  "zero_Mapping = \<lparr>mapping_System = [], mapping_ID = [], mapping_FTPAccount = zero_FtpUser\<rparr>"

definition MappingRetrieve_query :: string where
  "MappingRetrieve_query =
     ''select a.`id`, a.`username`, a.`description` ''
     @ ''from `ftp_mapping` m ''
     @ ''inner join `ftp_account` a on m.`ftp_id` = a.`id` ''
     @ ''where m.`system` = ? and m.`id` = ?''"

text \<open>
  The destinations \<open>&mapping.FTPAccount.ID\<close>, \<open>&mapping.FTPAccount.Username\<close> and
  \<open>&mapping.FTPAccount.Description\<close> of the \<open>Scan\<close> in \<open>MappingRetrieve\<close>.
\<close>

definition MappingRetrieve_dests ::
  "('w, 'h, 'v) sqlenv \<Rightarrow> ('v \<Rightarrow> Mapping \<Rightarrow> err + Mapping) list" where
  "MappingRetrieve_dests env =
     [dest_uint32 env
        (\<lambda>v mapping. mapping\<lparr>mapping_FTPAccount := (mapping_FTPAccount mapping)\<lparr>ID := v\<rparr>\<rparr>),
      dest_string env
        (\<lambda>v mapping. mapping\<lparr>mapping_FTPAccount := (mapping_FTPAccount mapping)\<lparr>Username := v\<rparr>\<rparr>),
      dest_string env
        (\<lambda>v mapping.
           mapping\<lparr>mapping_FTPAccount := (mapping_FTPAccount mapping)\<lparr>Description := v\<rparr>\<rparr>)]"

definition MappingRetrieve ::
  "('w, 'h, 'v) sqlenv \<Rightarrow> globals \<Rightarrow> 'h Database \<Rightarrow> 'w \<Rightarrow> string \<Rightarrow> string
     \<Rightarrow> (Mapping \<times> err option) go \<times> 'h Database \<times> 'w" where
  "MappingRetrieve env g db w system ident =
     (case checkDBConnection env g db w of
        (Panics, db1, w1) \<Rightarrow> (Panics, db1, w1)
      | (Returns (Some dbErr), db1, w1) \<Rightarrow> (Returns (zero_Mapping, Some dbErr), db1, w1)
      | (Returns None, db1, w1) \<Rightarrow>
          let mapping = zero_Mapping\<lparr>mapping_ID := ident, mapping_System := system\<rparr>
          in (case QueryForDriver env g db1 w1 MappingRetrieve_query
                     [ArgString system, ArgString ident] of
                (Panics, w2) \<Rightarrow> (Panics, db1, w2)
              | (Returns (Inl e), w2) \<Rightarrow> (Returns (mapping, Some e), db1, w2)
              | (Returns (Inr results), w2) \<Rightarrow>
                  (case rows_data results of
                     r # rs \<Rightarrow>
                       (case rows_Scan (MappingRetrieve_dests env) r mapping of
                          (mapping1, Some e) \<Rightarrow> (Returns (mapping1, Some e), db1, w2)
                        | (mapping1, None) \<Rightarrow> (Returns (mapping1, None), db1, w2))
                   | [] \<Rightarrow>
                       (case rows_err results of
                          Some e \<Rightarrow> (Returns (mapping, Some e), db1, w2)
                        | None \<Rightarrow> (Returns (mapping, Some ErrMappingNotFound), db1, w2)))))"

subsection \<open>The pagination engine\<close>

text \<open>
  The arithmetic of \<open>FtpUserGetSelection\<close> on its \<open>uint32\<close> variables: the defaults for
  \<open>pageSize\<close> and \<open>page\<close>, the offset, and the number of pages for the page size in use.
\<close>

definition paging_pageSize :: "32 word \<Rightarrow> 32 word" where
  "paging_pageSize pageSize = (if pageSize = 0 then 30 else pageSize)"

definition paging_page :: "32 word \<Rightarrow> 32 word" where
  "paging_page page = (if page = 0 then 1 else page)"

definition paging_offset :: "32 word \<Rightarrow> 32 word \<Rightarrow> 32 word" where
  "paging_offset page pageSize = (paging_page page - 1) * paging_pageSize pageSize"

definition paging_totalPages :: "32 word \<Rightarrow> 32 word \<Rightarrow> 32 word" where
  "paging_totalPages totalItems pageSize =
     (let totalPages = totalItems div pageSize
      in if totalItems mod pageSize > 0 then totalPages + 1 else totalPages)"

text \<open>
  The destinations \<open>&user.ID\<close>, \<open>&user.Username\<close> and \<open>&user.Description\<close> of the \<open>Scan\<close>
  in \<open>FtpUserGetSelection\<close> and in \<open>FtpUserGet\<close>.
\<close>

definition FtpUser_dests ::
  "('w, 'h, 'v) sqlenv \<Rightarrow> ('v \<Rightarrow> FtpUser \<Rightarrow> err + FtpUser) list" where
  "FtpUser_dests env =
     [dest_uint32 env (\<lambda>v user. user\<lparr>ID := v\<rparr>),
      dest_string env (\<lambda>v user. user\<lparr>Username := v\<rparr>),
      dest_string env (\<lambda>v user. user\<lparr>Description := v\<rparr>)]"

text \<open>
  The loop \<open>for results.Next()\<close> of \<open>FtpUserGetSelection\<close>; a failed \<open>Scan\<close> breaks out of it
  with the error and without appending the user.
\<close>

fun FtpUserGetSelection_rows ::
  "('w, 'h, 'v) sqlenv \<Rightarrow> 'v list list \<Rightarrow> FtpUsers \<Rightarrow> FtpUsers \<times> err option" where
  "FtpUserGetSelection_rows env [] users = (users, None)"
| "FtpUserGetSelection_rows env (r # rs) users =
     (case rows_Scan (FtpUser_dests env) r zero_FtpUser of
        (user, Some e) \<Rightarrow> (users, Some e)
      | (user, None) \<Rightarrow>
          FtpUserGetSelection_rows env rs
            (users\<lparr>Ftpusers := Ftpusers users @ [user\<lparr>Password := []\<rparr>]\<rparr>))"

definition FtpUserGetSelection_select :: string where
  "FtpUserGetSelection_select = ''select `id`, `username`, `description` from `ftp_account`''"

definition FtpUserGetSelection ::
  "('w, 'h, 'v) sqlenv \<Rightarrow> globals \<Rightarrow> 'h Database \<Rightarrow> 'w \<Rightarrow> 32 word \<Rightarrow> 32 word \<Rightarrow> string
     \<Rightarrow> (FtpUsers \<times> err option) go \<times> 'h Database \<times> 'w" where
  "FtpUserGetSelection env g db w page pageSize search =
     (case checkDBConnection env g db w of
        (Panics, db1, w1) \<Rightarrow> (Panics, db1, w1)
      | (Returns (Some e), db1, w1) \<Rightarrow> (Returns (zero_FtpUsers, Some e), db1, w1)
      | (Returns None, db1, w1) \<Rightarrow>
          let filter = (if search \<noteq> [] then ''%'' @ search @ ''%'' else []);
              filterClause = (if search \<noteq> []
                              then '' where `username` like ? or `description` like ?'' else []);
              args = (if search \<noteq> [] then [ArgString filter, ArgString filter] else [])
          in (case QueryRowForDriver env g db1 w1
                     (''select count(`id`) from `ftp_account`'' @ filterClause) args of
                (Panics, w2) \<Rightarrow> (Panics, db1, w2)
              | (Returns result, w2) \<Rightarrow>
                  (case row_Scan [dest_uint32 env (\<lambda>v users. users\<lparr>TotalItems := v\<rparr>)]
                          result zero_FtpUsers of
                     (users, Some e) \<Rightarrow> (Returns (users, Some e), db1, w2)
                   | (users, None) \<Rightarrow>
                       let pageSize1 = paging_pageSize pageSize;
                           offset = paging_offset page pageSize;
                           users1 = users\<lparr>TotalPages :=
                                             paging_totalPages (TotalItems users) pageSize1\<rparr>;
                           qry = FtpUserGetSelection_select @ filterClause @ '' order by `id`''
                                 @ getLimitClauseForDriver g pageSize1 offset
                       in (case QueryForDriver env g db1 w2 qry args of
                             (Panics, w3) \<Rightarrow> (Panics, db1, w3)
                           | (Returns (Inl e), w3) \<Rightarrow> (Returns (users1, Some e), db1, w3)
                           | (Returns (Inr results), w3) \<Rightarrow>
                               (case FtpUserGetSelection_rows env (rows_data results) users1 of
                                  (users2, Some e) \<Rightarrow> (Returns (users2, Some e), db1, w3)
                                | (users2, None) \<Rightarrow>
                                    (case rows_err results of
                                       Some e \<Rightarrow> (Returns (users2, Some e), db1, w3)
                                     | None \<Rightarrow> (Returns (users2, None), db1, w3)))))))"

subsection \<open>The account repository: get by identifier and create\<close>

text \<open>Go's variable \<open>id\<close> is written \<open>ident\<close>, since \<open>id\<close> is the identity function of HOL.\<close>

definition FtpUserGet_query :: string where
  "FtpUserGet_query = ''select `id`, `username`, `description` from `ftp_account` where `id` = ?''"

definition FtpUserGet ::
  "('w, 'h, 'v) sqlenv \<Rightarrow> globals \<Rightarrow> 'h Database \<Rightarrow> 'w \<Rightarrow> 32 word
     \<Rightarrow> (FtpUser \<times> err option) go \<times> 'h Database \<times> 'w" where
  "FtpUserGet env g db w ident =
     (case checkDBConnection env g db w of
        (Panics, db1, w1) \<Rightarrow> (Panics, db1, w1)
      | (Returns (Some dbErr), db1, w1) \<Rightarrow> (Returns (zero_FtpUser, Some dbErr), db1, w1)
      | (Returns None, db1, w1) \<Rightarrow>
          (case QueryForDriver env g db1 w1 FtpUserGet_query [ArgUint32 ident] of
             (Panics, w2) \<Rightarrow> (Panics, db1, w2)
           | (Returns (Inl e), w2) \<Rightarrow> (Returns (zero_FtpUser, Some e), db1, w2)
           | (Returns (Inr results), w2) \<Rightarrow>
               (case rows_data results of
                  r # rs \<Rightarrow>
                    (case rows_Scan (FtpUser_dests env) r zero_FtpUser of
                       (user, Some e) \<Rightarrow> (Returns (user, Some e), db1, w2)
                     | (user, None) \<Rightarrow> (Returns (user, None), db1, w2))
                | [] \<Rightarrow>
                    (case rows_err results of
                       Some e \<Rightarrow> (Returns (zero_FtpUser, Some e), db1, w2)
                     | None \<Rightarrow> (Returns (zero_FtpUser, Some ErrUserNotFound), db1, w2)))))"




subsection \<open>A scripted environment\<close>

text \<open>
  One environment to run the functions on, in the manner of the sqlmock driver of
  \<open>data_test.go\<close>: the world is a list of expected outcomes, consumed one per call, and the
  list of the calls made so far. A call that is not the next one expected fails. Handles
  are of type \<open>unit\<close>. It is one instance of the environment, and stands for no
  particular server.
\<close>

datatype mockval = MockNull | MockInt int | MockText string

datatype mock_outcome =
    OpenFails err | OpenSucceeds
  | PingFails err | PingSucceeds
  | ExecFails err | ExecSucceeds int
  | QueryFails err | QuerySucceeds "mockval list list" "err option"

datatype mock_call =
    CallOpen string string
  | CallPing
  | CallExec string "sqlarg list"
  | CallQuery string "sqlarg list"
  | CallSleep nat
  | CallConfigure pool_setting

record mock_world =
  expected :: "mock_outcome list"
  calls :: "mock_call list"

definition mock_note :: "mock_call \<Rightarrow> mock_world \<Rightarrow> mock_world" where
  "mock_note c w = w\<lparr>calls := calls w @ [c]\<rparr>"

definition mock_Open :: "string \<Rightarrow> string \<Rightarrow> mock_world \<Rightarrow> (err + unit) \<times> mock_world" where
  "mock_Open driverName dataSourceName w =
     (let w1 = mock_note (CallOpen driverName dataSourceName) w
      in case expected w of
           OpenSucceeds # rest \<Rightarrow> (Inr (), w1\<lparr>expected := rest\<rparr>)
         | OpenFails e # rest \<Rightarrow> (Inl e, w1\<lparr>expected := rest\<rparr>)
         | _ \<Rightarrow> (Inl ''call to Open was not expected'', w1))"

definition mock_Ping :: "unit \<Rightarrow> mock_world \<Rightarrow> err option \<times> mock_world" where
  "mock_Ping h w =
     (let w1 = mock_note CallPing w
      in case expected w of
           PingSucceeds # rest \<Rightarrow> (None, w1\<lparr>expected := rest\<rparr>)
         | PingFails e # rest \<Rightarrow> (Some e, w1\<lparr>expected := rest\<rparr>)
         | _ \<Rightarrow> (Some ''call to Ping was not expected'', w1))"

definition mock_Exec ::
  "unit \<Rightarrow> string \<Rightarrow> sqlarg list \<Rightarrow> mock_world \<Rightarrow> (err + int) \<times> mock_world" where
  "mock_Exec h query args w =
     (let w1 = mock_note (CallExec query args) w
      in case expected w of
           ExecSucceeds n # rest \<Rightarrow> (Inr n, w1\<lparr>expected := rest\<rparr>)
         | ExecFails e # rest \<Rightarrow> (Inl e, w1\<lparr>expected := rest\<rparr>)
         | _ \<Rightarrow> (Inl ''call to Exec was not expected'', w1))"

definition mock_Query ::
  "unit \<Rightarrow> string \<Rightarrow> sqlarg list \<Rightarrow> mock_world \<Rightarrow> (err + mockval sqlrows) \<times> mock_world" where
  "mock_Query h query args w =
     (let w1 = mock_note (CallQuery query args) w
      in case expected w of
           QuerySucceeds rs e # rest \<Rightarrow>
             (Inr \<lparr>rows_data = rs, rows_err = e\<rparr>, w1\<lparr>expected := rest\<rparr>)
         | QueryFails e # rest \<Rightarrow> (Inl e, w1\<lparr>expected := rest\<rparr>)
         | _ \<Rightarrow> (Inl ''call to Query was not expected'', w1))"

definition mock_scan_string :: "mockval \<Rightarrow> err + string" where
  "mock_scan_string v =
     (case v of
        MockText s \<Rightarrow> Inr s
      | MockInt i \<Rightarrow> Inr (if i < 0 then CHR ''-'' # itoa (nat (- i)) else itoa (nat i))
      | MockNull \<Rightarrow> Inl ''converting NULL to string is unsupported'')"

definition mock_scan_int :: "mockval \<Rightarrow> err + int" where
  "mock_scan_int v =
     (case v of
        MockInt i \<Rightarrow> Inr i
      | MockText s \<Rightarrow> Inl ''converting text to an integer is not scripted''
      | MockNull \<Rightarrow> Inl ''converting NULL to an integer is unsupported'')"

definition mock_scan_uint32 :: "mockval \<Rightarrow> err + 32 word" where
  "mock_scan_uint32 v =
     (case mock_scan_int v of
        Inl e \<Rightarrow> Inl e
      | Inr i \<Rightarrow> if 0 \<le> i \<and> i < 2 ^ 32 then Inr (word_of_int i) else Inl ''value out of range'')"

definition mock_scan_int64 :: "mockval \<Rightarrow> err + 64 word" where
  "mock_scan_int64 v =
     (case mock_scan_int v of
        Inl e \<Rightarrow> Inl e
      | Inr i \<Rightarrow> if - (2 ^ 63) \<le> i \<and> i < 2 ^ 63 then Inr (word_of_int i)
                 else Inl ''value out of range'')"

definition mock_env :: "(mock_world, unit, mockval) sqlenv" where
  "mock_env =
     \<lparr>sql_Open = mock_Open, db_Ping = mock_Ping, db_Exec = mock_Exec, db_Query = mock_Query,
      db_Configure = (\<lambda>h setting. mock_note (CallConfigure setting)),
      time_Sleep = (\<lambda>seconds. mock_note (CallSleep seconds)),
      scan_string = mock_scan_string, scan_uint32 = mock_scan_uint32,
      scan_int64 = mock_scan_int64, scan_int = mock_scan_int\<rparr>"

definition mock_expecting :: "mock_outcome list \<Rightarrow> mock_world" where
  "mock_expecting outcomes = \<lparr>expected = outcomes, calls = []\<rparr>"

definition mysql_globals :: globals where
  "mysql_globals = initial_globals\<lparr>dbDriverName := MySQLDriverName, connStr := ''u:p@/ftpusersvc''\<rparr>"

definition postgres_globals :: globals where
  "postgres_globals =
     initial_globals\<lparr>dbDriverName := PostgreSQLDriverName,
                     connStr := ''postgres://u:p@localhost/ftpusersvc''\<rparr>"

subsection \<open>The lookup query read over the tables of the schema\<close>

text \<open>
  A second environment, to say which accounts \<open>FtpUserLookup\<close> finds: the world is the
  content of the tables \<open>ftp_account\<close> and \<open>ftp_mapping\<close> of the schema files, and the one
  query it answers is the SELECT of \<open>FtpUserLookup\<close>, read as SQL reads it: one row for
  every pair of an account and a mapping with \<open>a.id = m.ftp_id\<close>,
  \<open>a.username\<close> equal to the argument and \<open>m.system = 'BillSys1'\<close>, with the columns
  \<open>a.id\<close>, \<open>a.username\<close>, \<open>a.description\<close>, \<open>a.password\<close> and \<open>m.id\<close>. Strings are
  compared byte by byte. Every other statement fails in this environment.
\<close>

record account_row =
  acc_id :: "32 word"
  acc_username :: string
  acc_description :: string
  acc_password :: string

record mapping_row =
  map_system :: string
  map_id :: string
  map_ftp_id :: "32 word"

record tables =
  ftp_account :: "account_row list"
  ftp_mapping :: "mapping_row list"

definition lookup_row :: "account_row \<Rightarrow> mapping_row \<Rightarrow> mockval list" where
  "lookup_row a m =
     [MockInt (uint (acc_id a)), MockText (acc_username a), MockText (acc_description a),
      MockText (acc_password a), MockText (map_id m)]"

definition lookup_matches :: "string \<Rightarrow> account_row \<Rightarrow> mapping_row \<Rightarrow> bool" where
  "lookup_matches username a m =
     (acc_id a = map_ftp_id m \<and> acc_username a = username \<and> map_system m = ''BillSys1'')"

definition select_lookup :: "tables \<Rightarrow> string \<Rightarrow> mockval list list" where
  "select_lookup t username =
     [lookup_row a m. a \<leftarrow> ftp_account t, m \<leftarrow> ftp_mapping t, lookup_matches username a m]"

definition tables_Query ::
  "unit \<Rightarrow> string \<Rightarrow> sqlarg list \<Rightarrow> tables \<Rightarrow> (err + mockval sqlrows) \<times> tables" where
  "tables_Query h query args t =
     (case args of
        [ArgString username] \<Rightarrow>
          if query = FtpUserLookup_query
             \<or> query = fmtQueryForDriver postgres_globals FtpUserLookup_query
          then (Inr \<lparr>rows_data = select_lookup t username, rows_err = None\<rparr>, t)
          else (Inl ''query not modelled'', t)
      | _ \<Rightarrow> (Inl ''query not modelled'', t))"

definition tables_env :: "(tables, unit, mockval) sqlenv" where
  "tables_env =
     \<lparr>sql_Open = (\<lambda>driverName dataSourceName t. (Inr (), t)),
      db_Ping = (\<lambda>h t. (None, t)),
      db_Exec = (\<lambda>h query args t. (Inl ''statement not modelled'', t)),
      db_Query = tables_Query,
      db_Configure = (\<lambda>h setting t. t),
      time_Sleep = (\<lambda>seconds t. t),
      scan_string = mock_scan_string, scan_uint32 = mock_scan_uint32,
      scan_int64 = mock_scan_int64, scan_int = mock_scan_int\<rparr>"

text \<open>Inputs for the runs on the two environments.\<close>

definition example_mapping :: NewMapping where
  "example_mapping = \<lparr>System = ''BillSys1'', SystemID = ''12345'', FTPAccountID = 7\<rparr>"


definition bad_dsn_globals :: globals where
  "bad_dsn_globals = initial_globals\<lparr>dbDriverName := MySQLDriverName, connStr := ''ftpusersvc''\<rparr>"

definition alice :: account_row where
  "alice = \<lparr>acc_id = 1, acc_username = ''alice'', acc_description = ''first'',
            acc_password = ''secret''\<rparr>"

definition billsys_mapping :: mapping_row where
  "billsys_mapping = \<lparr>map_system = ''BillSys1'', map_id = ''12345'', map_ftp_id = 1\<rparr>"

section \<open>Properties\<close>

subsection \<open>Library functions\<close>

lemma digit_in_digits: "d < 10 \<Longrightarrow> digit d \<in> set ''0123456789''"
  by (simp add: digit_def nth_mem del: set_simps)

lemma digit_not_special: "d < 10 \<Longrightarrow> digit d \<noteq> CHR ''?'' \<and> digit d \<noteq> backtick"
  using digit_in_digits [of d] by (auto simp: backtick_def)

lemma itoa_no_special: "CHR ''?'' \<notin> set (itoa n) \<and> backtick \<notin> set (itoa n)"
proof (induction n rule: itoa.induct)
  case (1 n)
  show ?case
  proof (cases "n < 10")
    case True
    then show ?thesis
      using digit_not_special [of n] by (subst itoa.simps, subst (2) itoa.simps) auto
  next
    case False
    have "n mod 10 < 10" by simp
    then show ?thesis
      using False 1 digit_not_special [of "n mod 10"]
      by (subst itoa.simps, subst (2) itoa.simps) auto
  qed
qed

lemma itoa_digit: "n < 10 \<Longrightarrow> itoa n = [digit n]"
  by (subst itoa.simps) simp

lemma itoa_two_digits: "10 \<le> n \<Longrightarrow> n < 100 \<Longrightarrow> itoa n = [digit (n div 10), digit (n mod 10)]"
  by (subst itoa.simps) (simp add: itoa_digit)

lemma strings_Replace_zero: "strings_Replace s old new 0 = s"
  by (simp add: strings_Replace.simps)

lemma strings_Replace_Nil: "strings_Replace [] old new n = []"
  by (simp add: strings_Replace.simps)

lemma strings_Replace_char_Cons:
  "n \<noteq> 0 \<Longrightarrow> strings_Replace (x # xs) [c] new n =
     (if x = c then new @ strings_Replace xs [c] new (n - 1)
      else x # strings_Replace xs [c] new n)"
  by (subst strings_Replace.simps) simp

lemma strings_Replace_char_absent: "c \<notin> set s \<Longrightarrow> strings_Replace s [c] new n = s"
proof (induction s)
  case Nil
  then show ?case by (simp add: strings_Replace_Nil)
next
  case (Cons x xs)
  then show ?case
    by (cases "n = 0") (auto simp: strings_Replace_char_Cons strings_Replace_zero)
qed

lemma strings_Replace_char_first:
  "c \<notin> set pre \<Longrightarrow> strings_Replace (pre @ c # post) [c] new 1 = pre @ new @ post"
  by (induction pre) (auto simp: strings_Replace_char_Cons strings_Replace_zero)

lemma strings_Replace_char_all:
  "n < 0 \<Longrightarrow> strings_Replace s [c] new n = concat (map (\<lambda>x. if x = c then new else [x]) s)"
  by (induction s arbitrary: n) (simp_all add: strings_Replace_char_Cons strings_Replace_Nil)

lemma strings_ReplaceAll_backtick:
  "strings_ReplaceAll q [backtick] [dquote] = map (\<lambda>x. if x = backtick then dquote else x) q"
  by (induction q) (simp_all add: strings_ReplaceAll_def strings_Replace_char_all)

lemma count_list_split:
  "n \<le> count_list q c \<Longrightarrow> \<exists>pre post. q = pre @ post \<and> count_list pre c = n"
proof (induction q arbitrary: n)
  case Nil
  then show ?case by simp
next
  case (Cons x xs)
  show ?case
  proof (cases "n = 0")
    case True
    then have "x # xs = [] @ (x # xs) \<and> count_list [] c = n" by simp
    then show ?thesis by blast
  next
    case False
    let ?m = "if x = c then n - 1 else n"
    have "?m \<le> count_list xs c" using Cons.prems False by (auto split: if_splits)
    then obtain pre post where "xs = pre @ post" "count_list pre c = ?m"
      using Cons.IH by blast
    then have "x # xs = (x # pre) @ post \<and> count_list (x # pre) c = n"
      using False by auto
    then show ?thesis by blast
  qed
qed













subsection \<open>The scripted environment\<close>

lemma mock_check_ok:
  "checkDBConnection mock_env g \<lparr>DB = Some ()\<rparr> (mock_expecting (PingSucceeds # rest))
     = (Returns None, \<lparr>DB = Some ()\<rparr>, \<lparr>expected = rest, calls = [CallPing]\<rparr>)"
  by (simp add: checkDBConnection_def mock_env_def mock_Ping_def mock_expecting_def mock_note_def)

lemma mock_exec:
  "db_Exec mock_env h q args \<lparr>expected = ExecFails e # rest, calls = cs\<rparr>
     = (Inl e, \<lparr>expected = rest, calls = cs @ [CallExec q args]\<rparr>)"
  "db_Exec mock_env h q args \<lparr>expected = ExecSucceeds n # rest, calls = cs\<rparr>
     = (Inr n, \<lparr>expected = rest, calls = cs @ [CallExec q args]\<rparr>)"
  "db_Exec mock_env h q args \<lparr>expected = [], calls = cs\<rparr>
     = (Inl ''call to Exec was not expected'', \<lparr>expected = [], calls = cs @ [CallExec q args]\<rparr>)"
  by (simp_all add: mock_env_def mock_Exec_def mock_note_def)

lemma mock_query:
  "db_Query mock_env h q args \<lparr>expected = QuerySucceeds rs e # rest, calls = cs\<rparr>
     = (Inr \<lparr>rows_data = rs, rows_err = e\<rparr>, \<lparr>expected = rest, calls = cs @ [CallQuery q args]\<rparr>)"
  by (simp add: mock_env_def mock_Query_def mock_note_def)

lemma fmtQueryForDriver_mysql_globals: "fmtQueryForDriver mysql_globals q = q"
  by (simp add: fmtQueryForDriver_def mysql_globals_def MySQLDriverName_def
      PostgreSQLDriverName_def)

subsection \<open>The dialect adapter\<close>

lemma placeholders_from_append:
  "CHR ''?'' \<notin> set xs \<Longrightarrow> placeholders_from p (xs @ ys) = xs @ placeholders_from p ys"
  by (induction xs) auto

lemma placeholders_from_absent: "CHR ''?'' \<notin> set xs \<Longrightarrow> placeholders_from p xs = xs"
  by (induction xs) auto

lemma placeholders_from_done: "11 \<le> p \<Longrightarrow> placeholders_from p xs = xs"
  by (induction xs) auto

text \<open>
  The ten rounds of the loop amount to one pass: round \<open>p\<close> finds the first \<open>?\<close> left,
  which is the \<open>p\<close>-th of the query, because the text put in its place holds no \<open>?\<close>.
\<close>

lemma fmtQuery_loop_eq: "fmtQuery_loop p s = placeholders_from p s"
proof (induction p s rule: fmtQuery_loop.induct)
  case (1 p s)
  show ?case
  proof (cases "p < 11")
    case False
    then show ?thesis by (subst fmtQuery_loop.simps) (simp add: placeholders_from_done)
  next
    case True
    note IH = 1 [OF True]
    show ?thesis
    proof (cases "CHR ''?'' \<in> set s")
      case False
      then show ?thesis
        using True IH
        by (subst fmtQuery_loop.simps)
          (simp add: strings_Replace_char_absent placeholders_from_absent)
    next
      case in_s: True
      then obtain pre post where s: "s = pre @ CHR ''?'' # post" and pre: "CHR ''?'' \<notin> set pre"
        by (meson split_list_first)
      have no: "CHR ''?'' \<notin> set (pre @ ''$'' @ itoa p)"
        using pre itoa_no_special [of p] by simp
      have "fmtQuery_loop p s = placeholders_from (p + 1) (pre @ ''$'' @ itoa p @ post)"
        using True IH by (subst fmtQuery_loop.simps) (simp add: s strings_Replace_char_first pre)
      also have "\<dots> = (pre @ ''$'' @ itoa p) @ placeholders_from (p + 1) post"
        using placeholders_from_append [OF no, of "p + 1" post] by simp
      also have "\<dots> = placeholders_from p s"
        using True by (simp add: s placeholders_from_append [OF pre])
      finally show ?thesis .
    qed
  qed
qed

lemma placeholders_from_numbered:
  "count_list s (CHR ''?'') + p \<le> 11 \<Longrightarrow>
   placeholders_from p (map (\<lambda>x. if x = backtick then dquote else x) s)
     = numbered_placeholders p s"
  by (induction s arbitrary: p) (auto simp: backtick_def dquote_def)

lemma placeholders_from_ceiling:
  "count_list pre (CHR ''?'') + p = 11 \<Longrightarrow>
   placeholders_from p (map (\<lambda>x. if x = backtick then dquote else x) (pre @ post))
     = numbered_placeholders p pre @ map (\<lambda>x. if x = backtick then dquote else x) post"
  by (induction pre arbitrary: p) (auto simp: backtick_def dquote_def placeholders_from_done)

lemma numbered_no_special:
  "CHR ''?'' \<notin> set (numbered_placeholders p s) \<and> backtick \<notin> set (numbered_placeholders p s)"
  using itoa_no_special by (induction s arbitrary: p) (auto simp: backtick_def dquote_def)

lemma fmtQueryForDriver_postgres:
  "dbDriverName g = PostgreSQLDriverName \<Longrightarrow>
   fmtQueryForDriver g query
     = placeholders_from 1 (map (\<lambda>x. if x = backtick then dquote else x) query)"
  by (simp add: fmtQueryForDriver_def fmtQuery_loop_eq strings_ReplaceAll_backtick)

text \<open>
  C3. For a query with at most 10 occurrences of \<open>?\<close>: under the postgres driver the
  output of \<open>fmtQueryForDriver\<close> is the query with every backtick replaced by a double
  quote and the occurrences of \<open>?\<close> replaced, from left to right, by \<open>$1\<close>, \<open>$2\<close> and so
  on; it holds no backtick and no \<open>?\<close>. Under the mysql driver the output is the input.
\<close>

theorem fmtQueryForDriver_placeholders:
  assumes "count_list query (CHR ''?'') \<le> 10"
  shows "(dbDriverName g = PostgreSQLDriverName \<longrightarrow>
            fmtQueryForDriver g query = numbered_placeholders 1 query
            \<and> backtick \<notin> set (fmtQueryForDriver g query)
            \<and> CHR ''?'' \<notin> set (fmtQueryForDriver g query))
         \<and> (dbDriverName g = MySQLDriverName \<longrightarrow> fmtQueryForDriver g query = query)"
proof (intro conjI impI)
  assume pg: "dbDriverName g = PostgreSQLDriverName"
  show eq: "fmtQueryForDriver g query = numbered_placeholders 1 query"
    using assms by (simp add: fmtQueryForDriver_postgres [OF pg] placeholders_from_numbered)
  show "backtick \<notin> set (fmtQueryForDriver g query)"
    using numbered_no_special [of 1 query] by (simp add: eq)
  show "CHR ''?'' \<notin> set (fmtQueryForDriver g query)"
    using numbered_no_special [of 1 query] by (simp add: eq)
next
  assume "dbDriverName g = MySQLDriverName"
  then show "fmtQueryForDriver g query = query"
    by (simp add: fmtQueryForDriver_def MySQLDriverName_def PostgreSQLDriverName_def)
qed

theorem fmtQueryForDriver_placeholders_witness:
  \<open>count_list MappingCreate_insert (CHR ''?'') \<le> 10
   \<and> fmtQueryForDriver postgres_globals MappingCreate_insert
       = ''insert into "ftp_mapping" ("system", "id", "ftp_id") values ($1, $2, $3)''
   \<and> fmtQueryForDriver mysql_globals MappingCreate_insert
       = ''insert into `ftp_mapping` (`system`, `id`, `ftp_id`) values (?, ?, ?)''\<close>
proof -
  have k: "count_list MappingCreate_insert (CHR ''?'') \<le> 10"
    by (simp add: MappingCreate_insert_def)
  have pg: "dbDriverName postgres_globals = PostgreSQLDriverName"
    by (simp add: postgres_globals_def)
  have my: "dbDriverName mysql_globals = MySQLDriverName"
    by (simp add: mysql_globals_def)
  show ?thesis
    using k pg my
      fmtQueryForDriver_placeholders [OF k, of postgres_globals]
      fmtQueryForDriver_placeholders [OF k, of mysql_globals]
    by (simp add: MappingCreate_insert_def itoa_digit digit_def backtick_def dquote_def)
qed

text \<open>
  C10. A query with more than 10 occurrences of \<open>?\<close> splits into \<open>pre\<close>, which holds the
  first 10 of them, and the rest \<open>post\<close>. Under the postgres driver the 10 in \<open>pre\<close> become
  \<open>$1\<close> to \<open>$10\<close>, and in \<open>post\<close> only the backticks change: every \<open>?\<close> after the tenth
  stays a \<open>?\<close>, so the output holds 10 fewer \<open>?\<close> than the query.
\<close>

theorem fmtQueryForDriver_ceiling:
  assumes "dbDriverName g = PostgreSQLDriverName"
    and "10 < count_list query (CHR ''?'')"
  shows "(\<exists>pre post. query = pre @ post \<and> count_list pre (CHR ''?'') = 10
            \<and> fmtQueryForDriver g query
                = numbered_placeholders 1 pre @ strings_ReplaceAll post [backtick] [dquote])
         \<and> count_list (fmtQueryForDriver g query) (CHR ''?'')
             = count_list query (CHR ''?'') - 10"
proof -
  let ?f = "\<lambda>x. if x = backtick then dquote else x"
  obtain pre post where q: "query = pre @ post" and k: "count_list pre (CHR ''?'') = 10"
    using count_list_split [of 10 query "CHR ''?''"] assms(2) by auto
  have eq: "fmtQueryForDriver g query = numbered_placeholders 1 pre @ map ?f post"
    using assms(1) k placeholders_from_ceiling [of pre 1 post]
    by (simp add: q fmtQueryForDriver_postgres)
  have "count_list (numbered_placeholders 1 pre) (CHR ''?'') = 0"
    using numbered_no_special [of 1 pre] by (simp add: count_list_0_iff)
  moreover have "count_list (map ?f post) (CHR ''?'') = count_list post (CHR ''?'')"
    by (induction post) (auto simp: backtick_def dquote_def)
  ultimately have "count_list (fmtQueryForDriver g query) (CHR ''?'')
                     = count_list query (CHR ''?'') - 10"
    using k unfolding eq by (simp add: q)
  then show ?thesis
    using q k eq by (auto simp: strings_ReplaceAll_backtick)
qed

theorem fmtQueryForDriver_ceiling_witness:
  \<open>dbDriverName postgres_globals = PostgreSQLDriverName
   \<and> 10 < count_list ''?,?,?,?,?,?,?,?,?,?,?,`x` = ?'' (CHR ''?'')
   \<and> count_list (fmtQueryForDriver postgres_globals ''?,?,?,?,?,?,?,?,?,?,?,`x` = ?'')
        (CHR ''?'') = 2
   \<and> fmtQueryForDriver postgres_globals ''?,?,?,?,?,?,?,?,?,?,?,`x` = ?''
       = ''$1,$2,$3,$4,$5,$6,$7,$8,$9,$10,?,"x" = ?''\<close>
proof -
  have pg: "dbDriverName postgres_globals = PostgreSQLDriverName"
    by (simp add: postgres_globals_def)
  have k: "10 < count_list ''?,?,?,?,?,?,?,?,?,?,?,`x` = ?'' (CHR ''?'')"
    by simp
  have out: \<open>fmtQueryForDriver postgres_globals ''?,?,?,?,?,?,?,?,?,?,?,`x` = ?''
       = ''$1,$2,$3,$4,$5,$6,$7,$8,$9,$10,?,"x" = ?''\<close>
    unfolding fmtQueryForDriver_postgres [OF pg]
    by (simp add: itoa_digit itoa_two_digits digit_def backtick_def dquote_def)
  show ?thesis
    using pg k out fmtQueryForDriver_ceiling [OF pg k]
    by simp
qed

subsection \<open>The pagination engine\<close>




text \<open>The page size in use is never 0, so the division by it does not panic.\<close>

lemma paging_pageSize_nonzero: "paging_pageSize pageSize \<noteq> 0"
  by (simp add: paging_pageSize_def)









subsection \<open>The connection manager\<close>

text \<open>
  The loop resets \<open>err\<close> before every \<open>continue\<close> and leaves through \<open>break\<close> only after
  a call without error, so \<open>err\<close> is nil whenever the loop is left.
\<close>

lemma attemptConnection_loop_no_error:
  "fst (attemptConnection_loop env g attempt None db w) = None"
proof (induction env g attempt "None :: err option" db w rule: attemptConnection_loop.induct)
  case (1 env g attempt db w)
  show ?case
  proof (cases "attempt < connectionRetryAttempts")
    case False
    then show ?thesis by (subst attemptConnection_loop.simps) simp
  next
    case True
    show ?thesis
    proof (cases "sql_Open env (dbDriverName g) (connStr g) w")
      case (Pair r w1)
      then show ?thesis
        using True 1 [OF True]
        by (subst attemptConnection_loop.simps) (auto split: sum.splits)
    qed
  qed
qed

text \<open>In no environment does \<open>attemptConnection\<close> return an error.\<close>

lemma attemptConnection_never_reports:
  "fst (attemptConnection env g db w) \<noteq> Returns (Some e)"
proof -
  obtain r db1 w1 where l: "attemptConnection_loop env g 0 None db w = (r, db1, w1)"
    by (cases "attemptConnection_loop env g 0 None db w") auto
  then have "r = None" using attemptConnection_loop_no_error [of env g 0 db w] by simp
  then show ?thesis
    using l by (simp add: attemptConnection_def split: option.splits)
qed

text \<open>The loop stops at the first call of \<open>sql.Open\<close> that succeeds.\<close>

lemma attemptConnection_stops_at_success:
  "attemptConnection mock_env mysql_globals \<lparr>DB = None\<rparr>
      (mock_expecting [OpenFails ''e1'', OpenFails ''e2'', OpenSucceeds, OpenSucceeds])
   = (Returns None, \<lparr>DB = Some ()\<rparr>,
      \<lparr>expected = [OpenSucceeds],
       calls = [CallOpen ''mysql'' ''u:p@/ftpusersvc'', CallSleep 5,
                CallOpen ''mysql'' ''u:p@/ftpusersvc'', CallSleep 5,
                CallOpen ''mysql'' ''u:p@/ftpusersvc'']\<rparr>)"
  by code_simp

text \<open>
  C2. The claim says that \<open>attemptConnection\<close> returns the last error when all 10 attempts
  fail. Run with the mysql driver and a data source name that \<open>sql.Open\<close> rejects every
  time, the code opens 10 times, sleeps 5 seconds after each failure, and then returns nil
  with \<open>db.DB\<close> left nil.
\<close>

theorem attemptConnection_all_attempts_fail:
  "attemptConnection mock_env bad_dsn_globals \<lparr>DB = None\<rparr>
      (mock_expecting
         (replicate 10 (OpenFails ''invalid DSN: missing the slash separating the database name'')))
   = (Returns None, \<lparr>DB = None\<rparr>,
      \<lparr>expected = [],
       calls = concat (replicate 10 [CallOpen ''mysql'' ''ftpusersvc'', CallSleep 5])\<rparr>)"
  by code_simp

text \<open>
  With the postgres driver the same run ends in a panic, since the pool is configured
  through the nil \<open>*sql.DB\<close>; and \<open>NewDB\<close> hands the caller a \<open>Database\<close> without a
  connection and no error.
\<close>

lemma attemptConnection_postgres_panics:
  "fst (attemptConnection mock_env postgres_globals \<lparr>DB = None\<rparr>
          (mock_expecting (replicate 10 (OpenFails ''pq: invalid connection string'')))) = Panics"
  by code_simp

lemma NewDB_reports_success_without_connection:
  "fst (NewDB mock_env initial_globals
          (mock_expecting
             (replicate 10
                (OpenFails ''invalid DSN: missing the slash separating the database name'')))
          ''mysql://ftpusersvc'')
   = Returns (Inr \<lparr>DB = None\<rparr>)"
  by code_simp



text \<open>
  The check for an unsupported scheme reads \<open>dbDriverName\<close>, which an earlier call may
  have set: then a name with another scheme is opened with the old driver and the old
  connection string.
\<close>

lemma NewDB_keeps_earlier_driver:
  "NewDB mock_env mysql_globals (mock_expecting [OpenSucceeds]) ''sqlite://file.db''
   = (Returns (Inr \<lparr>DB = Some ()\<rparr>), mysql_globals,
      \<lparr>expected = [], calls = [CallOpen ''mysql'' ''u:p@/ftpusersvc'']\<rparr>)"
  by code_simp




subsection \<open>The mapping repository: upsert\<close>

text \<open>
  C1. Once the connection check has passed, \<open>MappingCreate\<close> runs the INSERT. If it
  succeeds the outcome is \<open>MappingInserted\<close>. If it fails with the primary key
  signature, the UPDATE is run: its success gives \<open>MappingUpdated\<close>, its failure with the
  foreign key signature gives \<open>MappingFTPAccountNotFound\<close> and no error, and any other
  failure of it gives \<open>MappingError\<close> with that error. A failure of the INSERT without the
  primary key signature gives \<open>MappingError\<close> with that error, and no UPDATE is run.
\<close>

theorem MappingCreate_outcomes:
  assumes "checkDBConnection env g db w = (Returns None, db1, w1)"
    and "DB db1 = Some h"
    and "db_Exec env h (fmtQueryForDriver g MappingCreate_insert)
           [ArgString (System m), ArgString (SystemID m), ArgUint32 (FTPAccountID m)] w1
         = (ins, w2)"
    and "db_Exec env h (fmtQueryForDriver g MappingCreate_update)
           [ArgUint32 (FTPAccountID m), ArgString (System m), ArgString (SystemID m)] w2
         = (upd, w3)"
  shows "(ins = Inr n \<longrightarrow>
            MappingCreate env g db w m = (Returns (MappingInserted, None), db1, w2))
       \<and> (ins = Inl e \<and> checkPrimaryKeyErr g e \<and> upd = Inr n2 \<longrightarrow>
            MappingCreate env g db w m = (Returns (MappingUpdated, None), db1, w3))
       \<and> (ins = Inl e \<and> checkPrimaryKeyErr g e \<and> upd = Inl e2 \<and> checkForeignKeyErr g e2 \<longrightarrow>
            MappingCreate env g db w m = (Returns (MappingFTPAccountNotFound, None), db1, w3))
       \<and> (ins = Inl e \<and> checkPrimaryKeyErr g e \<and> upd = Inl e2 \<and> \<not> checkForeignKeyErr g e2 \<longrightarrow>
            MappingCreate env g db w m = (Returns (MappingError, Some e2), db1, w3))
       \<and> (ins = Inl e \<and> \<not> checkPrimaryKeyErr g e \<longrightarrow>
            MappingCreate env g db w m = (Returns (MappingError, Some e), db1, w2))"
  using assms by (simp add: MappingCreate_def ExecForDriver_def)

theorem MappingCreate_outcomes_witness:
  "fst (MappingCreate mock_env mysql_globals \<lparr>DB = Some ()\<rparr>
          (mock_expecting [PingSucceeds, ExecSucceeds 1]) example_mapping)
     = Returns (MappingInserted, None)
   \<and> fst (MappingCreate mock_env mysql_globals \<lparr>DB = Some ()\<rparr>
          (mock_expecting [PingSucceeds, ExecFails ''Error Code: 1062. Duplicate entry'',
                           ExecSucceeds 1]) example_mapping)
     = Returns (MappingUpdated, None)
   \<and> fst (MappingCreate mock_env mysql_globals \<lparr>DB = Some ()\<rparr>
          (mock_expecting [PingSucceeds, ExecFails ''Error Code: 1062. Duplicate entry'',
                           ExecFails ''Error Code: 1452. Cannot add or update a child row''])
          example_mapping)
     = Returns (MappingFTPAccountNotFound, None)
   \<and> fst (MappingCreate mock_env mysql_globals \<lparr>DB = Some ()\<rparr>
          (mock_expecting [PingSucceeds, ExecFails ''Error Code: 1062. Duplicate entry'',
                           ExecFails ''connection reset'']) example_mapping)
     = Returns (MappingError, Some ''connection reset'')
   \<and> fst (MappingCreate mock_env mysql_globals \<lparr>DB = Some ()\<rparr>
          (mock_expecting [PingSucceeds, ExecFails ''connection reset'']) example_mapping)
     = Returns (MappingError, Some ''connection reset'')"
proof -
  have pk: "checkPrimaryKeyErr mysql_globals ''Error Code: 1062. Duplicate entry''"
    by code_simp
  have npk: "\<not> checkPrimaryKeyErr mysql_globals ''connection reset''"
    by code_simp
  have fk: "checkForeignKeyErr mysql_globals
              ''Error Code: 1452. Cannot add or update a child row''"
    by code_simp
  have nfk: "\<not> checkForeignKeyErr mysql_globals ''connection reset''"
    by code_simp
  have d: "DB \<lparr>DB = Some ()\<rparr> = Some ()" by simp
  note t = MappingCreate_outcomes [OF mock_check_ok d mock_exec(2) mock_exec(3)]
    MappingCreate_outcomes [OF mock_check_ok d mock_exec(1) mock_exec(2)]
    MappingCreate_outcomes [OF mock_check_ok d mock_exec(1) mock_exec(1)]
    MappingCreate_outcomes [OF mock_check_ok d mock_exec(1) mock_exec(3)]
  show ?thesis
    using pk npk fk nfk t by simp
qed

subsection \<open>The account repository: create\<close>



subsection \<open>The account repository: lookup by username\<close>

lemma length_five:
  assumes "length r = 5"
  shows "\<exists>c0 c1 c2 c3 c4. r = [c0, c1, c2, c3, c4]"
proof -
  from assms obtain c0 r1 where "r = c0 # r1" "length r1 = 4" by (cases r) auto
  moreover then obtain c1 r2 where "r1 = c1 # r2" "length r2 = 3" by (cases r1) auto
  moreover then obtain c2 r3 where "r2 = c2 # r3" "length r3 = 2" by (cases r2) auto
  moreover then obtain c3 r4 where "r3 = c3 # r4" "length r4 = 1" by (cases r3) auto
  moreover then obtain c4 where "r4 = [c4]" by (cases r4) auto
  ultimately show ?thesis by simp
qed

lemma FtpUserLookup_scan_row:
  assumes "FtpUserLookup_scannable env r"
  shows "\<exists>user1 vf1. rows_Scan (FtpUserLookup_dests env) r (user, vf) = ((user1, vf1), None)
           \<and> scan_int64 env (r ! 0) = Inr (user_ID user1)
           \<and> scan_string env (r ! 1) = Inr (user_Username user1)
           \<and> scan_string env (r ! 2) = Inr (user_Description user1)
           \<and> scan_string env (r ! 3) = Inr (user_Password user1)
           \<and> user_VirtualFolders user1 = user_VirtualFolders user"
proof -
  from assms have "length r = 5" by (simp add: FtpUserLookup_scannable_def)
  then obtain c0 c1 c2 c3 c4 where r: "r = [c0, c1, c2, c3, c4]"
    using length_five by blast
  from assms obtain v0 v1 v2 v3 v4 where
    "scan_int64 env c0 = Inr v0" "scan_string env c1 = Inr v1" "scan_string env c2 = Inr v2"
    "scan_string env c3 = Inr v3" "scan_string env c4 = Inr v4"
    unfolding FtpUserLookup_scannable_def r
    by (cases "scan_int64 env c0"; cases "scan_string env c1"; cases "scan_string env c2";
        cases "scan_string env c3"; cases "scan_string env c4") auto
  then show ?thesis
    by (simp add: r rows_Scan_def FtpUserLookup_dests_def dest_int64_def dest_string_def)
qed

text \<open>
  Over rows that all scan, the loop ends with \<open>userFound\<close> set and with the user read
  from the last row.
\<close>

lemma FtpUserLookup_rows_scannable:
  assumes "list_all (FtpUserLookup_scannable env) rs" and "rs \<noteq> []"
  shows "\<exists>user1. FtpUserLookup_rows env g rs userFound user = (True, user1, None)
           \<and> scan_int64 env (last rs ! 0) = Inr (user_ID user1)
           \<and> scan_string env (last rs ! 1) = Inr (user_Username user1)
           \<and> scan_string env (last rs ! 2) = Inr (user_Description user1)
           \<and> scan_string env (last rs ! 3) = Inr (user_Password user1)"
  using assms
proof (induction rs arbitrary: userFound user)
  case Nil
  then show ?case by simp
next
  case (Cons r rs)
  from Cons.prems have ok: "FtpUserLookup_scannable env r" by simp
  obtain user1 vf1 where
    sc: "rows_Scan (FtpUserLookup_dests env) r (user, zero_VirtualFolder) = ((user1, vf1), None)"
    and cols: "scan_int64 env (r ! 0) = Inr (user_ID user1)"
      "scan_string env (r ! 1) = Inr (user_Username user1)"
      "scan_string env (r ! 2) = Inr (user_Description user1)"
      "scan_string env (r ! 3) = Inr (user_Password user1)"
    using FtpUserLookup_scan_row [OF ok, of user zero_VirtualFolder] by blast
  show ?case
  proof (cases "rs = []")
    case True
    then show ?thesis using sc cols by (simp add: Let_def)
  next
    case False
    then show ?thesis
      using sc Cons.prems Cons.IH by (simp add: Let_def)
  qed
qed

text \<open>
  In every environment: \<open>FtpUserLookup\<close> sends the query \<open>FtpUserLookup_query\<close> with
  the user name as its one argument. When the query returns no row, the call returns the
  error \<open>ErrUserNotFound\<close>. When it returns rows, and they scan, the call returns a user
  without error whose identifier, user name, description and password are the first four
  columns of the last row.
\<close>

lemma FtpUserLookup_rows_found:
  assumes "checkDBConnection env g db w = (Returns None, db1, w1)"
    and "DB db1 = Some h"
    and "db_Query env h (fmtQueryForDriver g FtpUserLookup_query) [ArgString username] w1
         = (Inr results, w2)"
    and "rows_err results = None"
  shows "(rows_data results = [] \<longrightarrow>
            FtpUserLookup env g db w username
              = (Returns (zero_User, Some ErrUserNotFound), db1, w2))
       \<and> (rows_data results \<noteq> [] \<and> list_all (FtpUserLookup_scannable env) (rows_data results) \<longrightarrow>
            (\<exists>user. FtpUserLookup env g db w username = (Returns (user, None), db1, w2)
               \<and> scan_int64 env (last (rows_data results) ! 0) = Inr (user_ID user)
               \<and> scan_string env (last (rows_data results) ! 1) = Inr (user_Username user)
               \<and> scan_string env (last (rows_data results) ! 2) = Inr (user_Description user)
               \<and> scan_string env (last (rows_data results) ! 3) = Inr (user_Password user)))"
proof (intro conjI impI)
  assume "rows_data results = []"
  then show "FtpUserLookup env g db w username
              = (Returns (zero_User, Some ErrUserNotFound), db1, w2)"
    using assms by (simp add: FtpUserLookup_def QueryForDriver_def zero_User_def)
next
  assume a: "rows_data results \<noteq> [] \<and> list_all (FtpUserLookup_scannable env) (rows_data results)"
  then obtain user1 where
    l: "FtpUserLookup_rows env g (rows_data results) False zero_User = (True, user1, None)"
    and cols: "scan_int64 env (last (rows_data results) ! 0) = Inr (user_ID user1)"
      "scan_string env (last (rows_data results) ! 1) = Inr (user_Username user1)"
      "scan_string env (last (rows_data results) ! 2) = Inr (user_Description user1)"
      "scan_string env (last (rows_data results) ! 3) = Inr (user_Password user1)"
    using FtpUserLookup_rows_scannable [of env "rows_data results" g False zero_User] by blast
  show "\<exists>user. FtpUserLookup env g db w username = (Returns (user, None), db1, w2)
               \<and> scan_int64 env (last (rows_data results) ! 0) = Inr (user_ID user)
               \<and> scan_string env (last (rows_data results) ! 1) = Inr (user_Username user)
               \<and> scan_string env (last (rows_data results) ! 2) = Inr (user_Description user)
               \<and> scan_string env (last (rows_data results) ! 3) = Inr (user_Password user)"
    using assms l cols by (simp add: FtpUserLookup_def QueryForDriver_def Let_def)
qed

lemma FtpUserLookup_on_mock:
  "FtpUserLookup mock_env mysql_globals \<lparr>DB = Some ()\<rparr>
      (mock_expecting [PingSucceeds, QuerySucceeds [] None]) ''nobody''
     = (Returns (zero_User, Some ErrUserNotFound), \<lparr>DB = Some ()\<rparr>,
        \<lparr>expected = [],
         calls = [CallPing, CallQuery FtpUserLookup_query [ArgString ''nobody'']]\<rparr>)
   \<and> (\<exists>user. fst (FtpUserLookup mock_env mysql_globals \<lparr>DB = Some ()\<rparr>
                     (mock_expecting
                        [PingSucceeds,
                         QuerySucceeds [[MockInt 1, MockText ''alice'', MockText ''first'',
                                         MockText ''secret'', MockText ''12345'']] None])
                     ''alice'')
                = Returns (user, None)
              \<and> user_ID user = 1 \<and> user_Username user = ''alice''
              \<and> user_Description user = ''first'' \<and> user_Password user = ''secret'')"
proof -
  have d: "DB \<lparr>DB = Some ()\<rparr> = Some ()" by simp
  note my = fmtQueryForDriver_mysql_globals
  let ?rs = "[[MockInt 1, MockText ''alice'', MockText ''first'', MockText ''secret'',
               MockText ''12345'']]"
  have ok: "list_all (FtpUserLookup_scannable mock_env) ?rs"
    by (simp add: FtpUserLookup_scannable_def mock_env_def mock_scan_string_def
        mock_scan_int64_def mock_scan_int_def)
  have e: "rows_err \<lparr>rows_data = rs, rows_err = None\<rparr> = None" for rs :: "mockval list list"
    by simp
  have none: "FtpUserLookup mock_env mysql_globals \<lparr>DB = Some ()\<rparr>
      (mock_expecting [PingSucceeds, QuerySucceeds [] None]) ''nobody''
     = (Returns (zero_User, Some ErrUserNotFound), \<lparr>DB = Some ()\<rparr>,
        \<lparr>expected = [],
         calls = [CallPing, CallQuery FtpUserLookup_query [ArgString ''nobody'']]\<rparr>)"
    using FtpUserLookup_rows_found [OF mock_check_ok d mock_query e, where username = "''nobody''"]
    by (simp add: my)
  have c: "checkDBConnection mock_env mysql_globals \<lparr>DB = Some ()\<rparr>
             (mock_expecting [PingSucceeds, QuerySucceeds ?rs None])
           = (Returns None, \<lparr>DB = Some ()\<rparr>,
              \<lparr>expected = [QuerySucceeds ?rs None], calls = [CallPing]\<rparr>)"
    by (rule mock_check_ok)
  have q: "db_Query mock_env () (fmtQueryForDriver mysql_globals FtpUserLookup_query)
             [ArgString ''alice''] \<lparr>expected = [QuerySucceeds ?rs None], calls = [CallPing]\<rparr>
           = (Inr \<lparr>rows_data = ?rs, rows_err = None\<rparr>,
              \<lparr>expected = [],
               calls = [CallPing]
                       @ [CallQuery (fmtQueryForDriver mysql_globals FtpUserLookup_query)
                            [ArgString ''alice'']]\<rparr>)"
    by (rule mock_query)
  obtain user where
    r: "FtpUserLookup mock_env mysql_globals \<lparr>DB = Some ()\<rparr>
          (mock_expecting [PingSucceeds, QuerySucceeds ?rs None]) ''alice''
        = (Returns (user, None), \<lparr>DB = Some ()\<rparr>,
           \<lparr>expected = [],
            calls = [CallPing, CallQuery FtpUserLookup_query [ArgString ''alice'']]\<rparr>)"
    and cols: "scan_int64 mock_env (MockInt 1) = Inr (user_ID user)"
      "scan_string mock_env (MockText ''alice'') = Inr (user_Username user)"
      "scan_string mock_env (MockText ''first'') = Inr (user_Description user)"
      "scan_string mock_env (MockText ''secret'') = Inr (user_Password user)"
    using ok FtpUserLookup_rows_found [OF c d q]
    by (auto simp: my)
  have "user_ID user = 1 \<and> user_Username user = ''alice''
        \<and> user_Description user = ''first'' \<and> user_Password user = ''secret''"
    using cols
    by (simp add: mock_env_def mock_scan_string_def mock_scan_int64_def mock_scan_int_def)
  then show ?thesis using none r by auto
qed

subsection \<open>Lookup by username over the tables\<close>

lemma set_select_lookup:
  "set (select_lookup t username)
     = {lookup_row a m | a m. a \<in> set (ftp_account t) \<and> m \<in> set (ftp_mapping t)
                              \<and> lookup_matches username a m}"
  by (auto simp: select_lookup_def)

lemma select_lookup_empty:
  "(select_lookup t username = [])
     = (\<not> (\<exists>a \<in> set (ftp_account t). \<exists>m \<in> set (ftp_mapping t). lookup_matches username a m))"
proof -
  have "(select_lookup t username = []) = (set (select_lookup t username) = {})" by simp
  then show ?thesis unfolding set_select_lookup by auto
qed

lemma uint_32_in_int64: "- (2 ^ 63) \<le> uint (x :: 32 word) \<and> uint x < 2 ^ 63"
proof -
  have "- (2 ^ 63) \<le> (0 :: int)" by simp
  also have "0 \<le> uint x" by simp
  finally have lo: "- (2 ^ 63) \<le> uint x" .
  have "uint x < 2 ^ 32" using uint_bounded [of x] by simp
  also have "(2 :: int) ^ 32 < 2 ^ 63" by simp
  finally have hi: "uint x < 2 ^ 63" .
  show ?thesis using lo hi by (rule conjI)
qed

lemma tables_scan_int64:
  "scan_int64 tables_env (MockInt (uint (x :: 32 word))) = Inr (ucast x)"
proof -
  have "mock_scan_int64 (MockInt (uint x)) = Inr (word_of_int (uint x))"
    using uint_32_in_int64 [of x] unfolding mock_scan_int64_def mock_scan_int_def by simp
  then show ?thesis by (simp add: tables_env_def)
qed

lemma tables_scan_string: "scan_string tables_env (MockText s) = Inr s"
  by (simp add: tables_env_def mock_scan_string_def)

lemma lookup_row_scannable: "FtpUserLookup_scannable tables_env (lookup_row a m)"
  by (simp add: FtpUserLookup_scannable_def lookup_row_def tables_scan_int64 tables_scan_string)

lemma select_lookup_scannable:
  "list_all (FtpUserLookup_scannable tables_env) (select_lookup t username)"
  unfolding list_all_iff set_select_lookup using lookup_row_scannable by auto

lemma tables_check:
  "checkDBConnection tables_env g \<lparr>DB = Some ()\<rparr> t = (Returns None, \<lparr>DB = Some ()\<rparr>, t)"
  by (simp add: checkDBConnection_def tables_env_def)

lemma fmtQueryForDriver_cases:
  "fmtQueryForDriver g q = q \<or> fmtQueryForDriver g q = fmtQueryForDriver postgres_globals q"
  by (simp add: fmtQueryForDriver_def postgres_globals_def)

lemma tables_lookup_query:
  "db_Query tables_env () (fmtQueryForDriver g FtpUserLookup_query) [ArgString username] t
     = (Inr \<lparr>rows_data = select_lookup t username, rows_err = None\<rparr>, t)"
  using fmtQueryForDriver_cases [of g FtpUserLookup_query]
  by (auto simp: tables_env_def tables_Query_def)

text \<open>
  C6, as the claim states it, fails: the query joins the accounts with their mappings of
  the system \<open>BillSys1\<close>, so an account whose user name matches the argument but which
  has no such mapping is not found.
\<close>

theorem FtpUserLookup_needs_mapping:
  "acc_username alice = ''alice''
   \<and> fst (FtpUserLookup tables_env mysql_globals \<lparr>DB = Some ()\<rparr>
             \<lparr>ftp_account = [alice], ftp_mapping = []\<rparr> ''alice'')
       = Returns (zero_User, Some ErrUserNotFound)
   \<and> user_Password zero_User \<noteq> acc_password alice"
  by code_simp

text \<open>
  C6, amended. Over the tables: \<open>FtpUserLookup\<close> returns the error \<open>ErrUserNotFound\<close>
  when no account has the user name of the argument together with a mapping of the system
  \<open>BillSys1\<close>; when there is such an account, it returns without error a user with the
  identifier, user name, description and password of such an account: the password is
  populated.
\<close>

theorem FtpUserLookup_on_tables:
  "(\<not> (\<exists>a \<in> set (ftp_account t). \<exists>m \<in> set (ftp_mapping t). lookup_matches username a m) \<longrightarrow>
      FtpUserLookup tables_env g \<lparr>DB = Some ()\<rparr> t username
        = (Returns (zero_User, Some ErrUserNotFound), \<lparr>DB = Some ()\<rparr>, t))
   \<and> ((\<exists>a \<in> set (ftp_account t). \<exists>m \<in> set (ftp_mapping t). lookup_matches username a m) \<longrightarrow>
      (\<exists>user a m. FtpUserLookup tables_env g \<lparr>DB = Some ()\<rparr> t username
                      = (Returns (user, None), \<lparr>DB = Some ()\<rparr>, t)
         \<and> a \<in> set (ftp_account t) \<and> m \<in> set (ftp_mapping t) \<and> lookup_matches username a m
         \<and> user_ID user = ucast (acc_id a) \<and> user_Username user = username
         \<and> user_Description user = acc_description a \<and> user_Password user = acc_password a))"
proof (intro conjI impI)
  let ?results = "\<lparr>rows_data = select_lookup t username, rows_err = None\<rparr>"
  have d: "DB \<lparr>DB = Some ()\<rparr> = Some ()" by simp
  have e: "rows_err ?results = None" by simp
  note found = FtpUserLookup_rows_found [OF tables_check d tables_lookup_query e]
  {
    assume "\<not> (\<exists>a \<in> set (ftp_account t). \<exists>m \<in> set (ftp_mapping t). lookup_matches username a m)"
    then have "select_lookup t username = []" by (simp add: select_lookup_empty)
    then show "FtpUserLookup tables_env g \<lparr>DB = Some ()\<rparr> t username
        = (Returns (zero_User, Some ErrUserNotFound), \<lparr>DB = Some ()\<rparr>, t)"
      using found by simp
  }
  {
    assume "\<exists>a \<in> set (ftp_account t). \<exists>m \<in> set (ftp_mapping t). lookup_matches username a m"
    then have ne: "select_lookup t username \<noteq> []" by (simp add: select_lookup_empty)
    then have "last (select_lookup t username) \<in> set (select_lookup t username)" by simp
    then obtain a m where am: "a \<in> set (ftp_account t)" "m \<in> set (ftp_mapping t)"
      "lookup_matches username a m" and l: "last (select_lookup t username) = lookup_row a m"
      unfolding set_select_lookup by auto
    obtain user where
      r: "FtpUserLookup tables_env g \<lparr>DB = Some ()\<rparr> t username
            = (Returns (user, None), \<lparr>DB = Some ()\<rparr>, t)"
      and cols: "scan_int64 tables_env (lookup_row a m ! 0) = Inr (user_ID user)"
        "scan_string tables_env (lookup_row a m ! 1) = Inr (user_Username user)"
        "scan_string tables_env (lookup_row a m ! 2) = Inr (user_Description user)"
        "scan_string tables_env (lookup_row a m ! 3) = Inr (user_Password user)"
      using found ne select_lookup_scannable [of t username] by (auto simp: l)
    have "user_ID user = ucast (acc_id a) \<and> user_Username user = username
         \<and> user_Description user = acc_description a \<and> user_Password user = acc_password a"
      using cols am(3)
      by (simp add: lookup_row_def tables_scan_int64 tables_scan_string lookup_matches_def)
    then show "\<exists>user a m. FtpUserLookup tables_env g \<lparr>DB = Some ()\<rparr> t username
                      = (Returns (user, None), \<lparr>DB = Some ()\<rparr>, t)
         \<and> a \<in> set (ftp_account t) \<and> m \<in> set (ftp_mapping t) \<and> lookup_matches username a m
         \<and> user_ID user = ucast (acc_id a) \<and> user_Username user = username
         \<and> user_Description user = acc_description a \<and> user_Password user = acc_password a"
      using r am by blast
  }
qed

theorem FtpUserLookup_on_tables_witness:
  "(\<exists>a \<in> set [alice]. \<exists>m \<in> set [billsys_mapping]. lookup_matches ''alice'' a m)
   \<and> (\<exists>user. fst (FtpUserLookup tables_env postgres_globals \<lparr>DB = Some ()\<rparr>
                     \<lparr>ftp_account = [alice], ftp_mapping = [billsys_mapping]\<rparr> ''alice'')
                = Returns (user, None)
              \<and> user_ID user = 1 \<and> user_Username user = ''alice''
              \<and> user_Description user = ''first'' \<and> user_Password user = ''secret'')
   \<and> \<not> (\<exists>a \<in> set [alice]. \<exists>m \<in> set [billsys_mapping]. lookup_matches ''bob'' a m)
   \<and> fst (FtpUserLookup tables_env postgres_globals \<lparr>DB = Some ()\<rparr>
             \<lparr>ftp_account = [alice], ftp_mapping = [billsys_mapping]\<rparr> ''bob'')
       = Returns (zero_User, Some ErrUserNotFound)"
proof -
  let ?t = "\<lparr>ftp_account = [alice], ftp_mapping = [billsys_mapping]\<rparr>"
  have h1: "\<exists>a \<in> set (ftp_account ?t). \<exists>m \<in> set (ftp_mapping ?t). lookup_matches ''alice'' a m"
    by (simp add: lookup_matches_def alice_def billsys_mapping_def)
  have h2: "\<not> (\<exists>a \<in> set (ftp_account ?t). \<exists>m \<in> set (ftp_mapping ?t). lookup_matches ''bob'' a m)"
    by (simp add: lookup_matches_def alice_def billsys_mapping_def)
  have c1: "\<exists>user. fst (FtpUserLookup tables_env postgres_globals \<lparr>DB = Some ()\<rparr> ?t ''alice'')
                = Returns (user, None)
              \<and> user_ID user = 1 \<and> user_Username user = ''alice''
              \<and> user_Description user = ''first'' \<and> user_Password user = ''secret''"
    using h1 FtpUserLookup_on_tables [of ?t "''alice''" postgres_globals]
    by (auto simp: alice_def)
  have c2: "fst (FtpUserLookup tables_env postgres_globals \<lparr>DB = Some ()\<rparr> ?t ''bob'')
       = Returns (zero_User, Some ErrUserNotFound)"
    using h2 FtpUserLookup_on_tables [of ?t "''bob''" postgres_globals]
    by simp
  show ?thesis using h1 h2 c1 c2 by simp
qed

subsection \<open>The read paths that leave the password out\<close>

text \<open>A scan changes only what its destinations assign.\<close>

lemma scan_columns_keeps:
  assumes "\<And>d c s s'. d \<in> set ds \<Longrightarrow> d c s = Inr s' \<Longrightarrow> f s' = f s"
  shows "f (fst (scan_columns ds cs s)) = f s"
  using assms
proof (induction ds cs s rule: scan_columns.induct)
  case (1 d ds c cs s)
  show ?case
  proof (cases "d c s")
    case (Inl e)
    then show ?thesis by simp
  next
    case (Inr s')
    have "f (fst (scan_columns ds cs s')) = f s'"
      by (rule "1.IH" [OF Inr]) (use "1.prems" in auto)
    moreover have "f s' = f s" using "1.prems" [of d c s s'] Inr by simp
    ultimately show ?thesis using Inr by simp
  qed
qed simp_all

lemma rows_Scan_keeps:
  assumes "\<And>d c s s'. d \<in> set ds \<Longrightarrow> d c s = Inr s' \<Longrightarrow> f s' = f s"
  shows "f (fst (rows_Scan ds r s)) = f s"
  using scan_columns_keeps [of ds f r s] assms by (simp add: rows_Scan_def)

lemma row_Scan_keeps:
  assumes "\<And>d c s s'. d \<in> set ds \<Longrightarrow> d c s = Inr s' \<Longrightarrow> f s' = f s"
  shows "f (fst (row_Scan ds row s)) = f s"
  using rows_Scan_keeps [of ds f _ s] assms
  by (auto simp: row_Scan_def split: sum.splits list.splits option.splits)

lemma FtpUser_dests_Password:
  "Password (fst (rows_Scan (FtpUser_dests env) r user)) = Password user"
  by (rule rows_Scan_keeps)
    (auto simp: FtpUser_dests_def dest_uint32_def dest_string_def split: sum.splits)

lemma FtpUserGetSelection_rows_Password:
  assumes "\<forall>u \<in> set (Ftpusers users). Password u = []"
  shows "\<forall>u \<in> set (Ftpusers (fst (FtpUserGetSelection_rows env rs users))). Password u = []"
  using assms
proof (induction rs arbitrary: users)
  case Nil
  then show ?case by simp
next
  case (Cons r rs)
  show ?case
  proof (cases "rows_Scan (FtpUser_dests env) r zero_FtpUser")
    case (Pair user e)
    show ?thesis
    proof (cases e)
      case None
      have "\<forall>u \<in> set (Ftpusers (users\<lparr>Ftpusers := Ftpusers users @ [user\<lparr>Password := []\<rparr>]\<rparr>)).
              Password u = []"
        using Cons.prems by simp
      then have "\<forall>u \<in> set (Ftpusers (fst (FtpUserGetSelection_rows env rs
                  (users\<lparr>Ftpusers := Ftpusers users @ [user\<lparr>Password := []\<rparr>]\<rparr>)))).
              Password u = []"
        by (rule Cons.IH)
      then show ?thesis using Pair None by simp
    next
      case (Some a)
      then show ?thesis using Pair Cons.prems by simp
    qed
  qed
qed

lemma FtpUserGetSelection_rows_totals:
  "TotalItems (fst (FtpUserGetSelection_rows env rs users)) = TotalItems users
   \<and> TotalPages (fst (FtpUserGetSelection_rows env rs users)) = TotalPages users"
  by (induction rs arbitrary: users) (auto split: prod.splits option.splits)

lemma count_Scan_Ftpusers:
  "Ftpusers (fst (row_Scan [dest_uint32 env (\<lambda>v users. users\<lparr>TotalItems := v\<rparr>)] row users))
     = Ftpusers users"
  by (rule row_Scan_keeps) (auto simp: dest_uint32_def split: sum.splits)

lemma FtpUserGet_Password:
  assumes "FtpUserGet env g db w ident = (Returns (user, e), db', w')"
  shows "Password user = []"
proof -
  have z: "Password user1 = []"
    if "rows_Scan (FtpUser_dests env) r zero_FtpUser = (user1, e1)" for r user1 e1
    using FtpUser_dests_Password [of env r zero_FtpUser] that by (simp add: zero_FtpUser_def)
  have z0: "Password zero_FtpUser = []" by (simp add: zero_FtpUser_def)
  show ?thesis
    using assms z z0
    by (auto simp: FtpUserGet_def
        split: prod.splits go.splits option.splits sum.splits list.splits)
qed

lemma MappingRetrieve_dests_Password:
  "Password (mapping_FTPAccount (fst (rows_Scan (MappingRetrieve_dests env) r mapping)))
     = Password (mapping_FTPAccount mapping)"
  by (rule rows_Scan_keeps)
    (auto simp: MappingRetrieve_dests_def dest_uint32_def dest_string_def split: sum.splits)

text \<open>\<open>MappingRetrieve\<close>, the third read path of an account, leaves the password empty too.\<close>

lemma MappingRetrieve_Password:
  assumes "MappingRetrieve env g db w system ident = (Returns (mapping, e), db', w')"
  shows "Password (mapping_FTPAccount mapping) = []"
proof -
  let ?m = "zero_Mapping\<lparr>mapping_ID := ident, mapping_System := system\<rparr>"
  have z0: "Password (mapping_FTPAccount zero_Mapping) = []"
    "Password (mapping_FTPAccount ?m) = []"
    by (simp_all add: zero_Mapping_def zero_FtpUser_def)
  have z: "Password (mapping_FTPAccount mapping1) = []"
    if "rows_Scan (MappingRetrieve_dests env) r ?m = (mapping1, e1)" for r mapping1 e1
    using MappingRetrieve_dests_Password [of env r ?m] that z0 by simp
  show ?thesis
    using assms z z0
    by (auto simp: MappingRetrieve_def Let_def
        split: prod.splits go.splits option.splits sum.splits list.splits)
qed

lemma FtpUserGetSelection_Password:
  assumes "FtpUserGetSelection env g db w page pageSize search = (Returns (users, e), db', w')"
  shows "\<forall>u \<in> set (Ftpusers users). Password u = []"
proof -
  have a: "Ftpusers users1 = []"
    if "row_Scan [dest_uint32 env (\<lambda>v users. users\<lparr>TotalItems := v\<rparr>)] row zero_FtpUsers
          = (users1, e1)" for row users1 e1
    using count_Scan_Ftpusers [of env row zero_FtpUsers] that by (simp add: zero_FtpUsers_def)
  have b: "\<forall>u \<in> set (Ftpusers users2). Password u = []"
    if "FtpUserGetSelection_rows env rs users1 = (users2, e2)" and "Ftpusers users1 = []"
    for rs users1 users2 e2
    using FtpUserGetSelection_rows_Password [of users1 env rs] that by simp
  have z: "Ftpusers zero_FtpUsers = []" by (simp add: zero_FtpUsers_def)
  show ?thesis
    using assms
    apply (simp add: FtpUserGetSelection_def Let_def
        split: prod.splits go.splits option.splits sum.splits)
    apply (auto simp: z dest!: a dest: b)
    done
qed

text \<open>
  What a successful \<open>FtpUserGetSelection\<close> reports as the number of pages is the value
  of \<open>paging_totalPages\<close> for the number of items it reports and the page size in use.
\<close>

lemma FtpUserGetSelection_TotalPages:
  assumes "FtpUserGetSelection env g db w page pageSize search = (Returns (users, None), db', w')"
  shows "TotalPages users = paging_totalPages (TotalItems users) (paging_pageSize pageSize)"
proof -
  have b: "TotalItems users2 = TotalItems users1 \<and> TotalPages users2 = TotalPages users1"
    if "FtpUserGetSelection_rows env rs users1 = (users2, e2)" for rs users1 users2 e2
    using FtpUserGetSelection_rows_totals [of env rs users1] that by simp
  show ?thesis
    using assms
    apply (simp add: FtpUserGetSelection_def Let_def
        split: prod.splits go.splits option.splits sum.splits)
    apply (auto dest!: b)
    done
qed

lemma FtpUserGet_on_mock:
  "FtpUserGet mock_env mysql_globals \<lparr>DB = Some ()\<rparr>
        (mock_expecting
           [PingSucceeds,
            QuerySucceeds [[MockInt 4, MockText ''alice'', MockText ''first'']] None]) 4
   = (Returns (\<lparr>ID = 4, Username = ''alice'', Description = ''first'', Password = []\<rparr>, None),
      \<lparr>DB = Some ()\<rparr>,
      \<lparr>expected = [], calls = [CallPing, CallQuery FtpUserGet_query [ArgUint32 4]]\<rparr>)"
  by code_simp

text \<open>
  The scenario of the specification: page 16 of size 9 with the search term 1 and 138
  matching accounts. The count comes first, then the page with the limit clause
  \<open>limit 135, 9\<close>; 16 pages are reported.
\<close>

lemma FtpUserGetSelection_on_mock:
  "FtpUserGetSelection mock_env mysql_globals \<lparr>DB = Some ()\<rparr>
        (mock_expecting
           [PingSucceeds,
            QuerySucceeds [[MockInt 138]] None,
            QuerySucceeds [[MockInt 291, MockText ''user291'', MockText ''d1''],
                           [MockInt 301, MockText ''user301'', MockText ''d2'']] None])
        16 9 ''1''
   = (Returns
        (\<lparr>Ftpusers =
            [\<lparr>ID = 291, Username = ''user291'', Description = ''d1'', Password = []\<rparr>,
             \<lparr>ID = 301, Username = ''user301'', Description = ''d2'', Password = []\<rparr>],
          TotalItems = 138, TotalPages = 16\<rparr>, None),
      \<lparr>DB = Some ()\<rparr>,
      \<lparr>expected = [],
       calls =
         [CallPing,
          CallQuery
            ''select count(`id`) from `ftp_account` where `username` like ? or `description` like ?''
            [ArgString ''%1%'', ArgString ''%1%''],
          CallQuery
            (''select `id`, `username`, `description` from `ftp_account`''
             @ '' where `username` like ? or `description` like ? order by `id` limit 135, 9'')
            [ArgString ''%1%'', ArgString ''%1%'']]\<rparr>)"
  by code_simp

text \<open>
  C8. Whatever the environment does, a user that \<open>FtpUserGet\<close> returns and every user in
  the list that \<open>FtpUserGetSelection\<close> returns has an empty password; the query of the
  first and the select clause of the second name the columns \<open>id\<close>, \<open>username\<close> and
  \<open>description\<close> only.
\<close>

theorem read_paths_leave_password_empty:
  "(FtpUserGet env g db w ident = (Returns (user, e), db1, w1) \<longrightarrow> Password user = [])
   \<and> (FtpUserGetSelection env g db w page pageSize search = (Returns (users, e2), db2, w2) \<longrightarrow>
        (\<forall>u \<in> set (Ftpusers users). Password u = []))
   \<and> FtpUserGet_query
       = ''select `id`, `username`, `description` from `ftp_account`'' @ '' where `id` = ?''
   \<and> FtpUserGetSelection_select = ''select `id`, `username`, `description` from `ftp_account`''"
  using FtpUserGet_Password [of env g db w ident user e db1 w1]
    FtpUserGetSelection_Password [of env g db w page pageSize search users e2 db2 w2]
  by (simp add: FtpUserGet_query_def FtpUserGetSelection_select_def)

theorem read_paths_leave_password_empty_witness:
  "(\<exists>user. fst (FtpUserGet mock_env mysql_globals \<lparr>DB = Some ()\<rparr>
        (mock_expecting
           [PingSucceeds,
            QuerySucceeds [[MockInt 4, MockText ''alice'', MockText ''first'']] None]) 4)
      = Returns (user, None) \<and> Username user = ''alice'' \<and> Password user = [])
   \<and> (\<exists>users. fst (FtpUserGetSelection mock_env mysql_globals \<lparr>DB = Some ()\<rparr>
        (mock_expecting
           [PingSucceeds,
            QuerySucceeds [[MockInt 138]] None,
            QuerySucceeds [[MockInt 291, MockText ''user291'', MockText ''d1''],
                           [MockInt 301, MockText ''user301'', MockText ''d2'']] None])
        16 9 ''1'')
      = Returns (users, None) \<and> length (Ftpusers users) = 2
        \<and> (\<forall>u \<in> set (Ftpusers users). Password u = []))"
proof -
  let ?w = "mock_expecting
           [PingSucceeds,
            QuerySucceeds [[MockInt 4, MockText ''alice'', MockText ''first'']] None]"
  let ?w2 = "mock_expecting
           [PingSucceeds,
            QuerySucceeds [[MockInt 138]] None,
            QuerySucceeds [[MockInt 291, MockText ''user291'', MockText ''d1''],
                           [MockInt 301, MockText ''user301'', MockText ''d2'']] None]"
  obtain user db1 w1 where
    g: "FtpUserGet mock_env mysql_globals \<lparr>DB = Some ()\<rparr> ?w 4 = (Returns (user, None), db1, w1)"
    and u: "Username user = ''alice''"
    using FtpUserGet_on_mock by simp
  obtain users db2 w2 where
    s: "FtpUserGetSelection mock_env mysql_globals \<lparr>DB = Some ()\<rparr> ?w2 16 9 ''1''
          = (Returns (users, None), db2, w2)"
    and n: "length (Ftpusers users) = 2"
    using FtpUserGetSelection_on_mock by simp
  have "Password user = [] \<and> (\<forall>u \<in> set (Ftpusers users). Password u = [])"
    using g s
      read_paths_leave_password_empty
        [where env = mock_env and g = mysql_globals and db = "\<lparr>DB = Some ()\<rparr>" and w = ?w
           and ident = 4 and user = user and e = None and ?db1.0 = db1 and ?w1.0 = w1]
      read_paths_leave_password_empty
        [where env = mock_env and g = mysql_globals and db = "\<lparr>DB = Some ()\<rparr>" and w = ?w2
           and page = 16 and pageSize = 9 and search = "''1''" and users = users and ?e2.0 = None
           and ?db2.0 = db2 and ?w2.0 = w2]
    by blast
  then show ?thesis
    using g s u n by auto
qed

end
